theory Spec2Isabelle
  imports Complex_Main
begin

section \<open>Conventions of the embedding\<close>

text \<open>
  The scripts under \<^verbatim>\<open>scripts/real_data\<close> are embedded function by function.
  Python \<^verbatim>\<open>int\<close> is \<^typ>\<open>int\<close>; Python and numpy floats are idealised as
  \<^typ>\<open>real\<close> (no rounding error, no NaN); an exception is a value of
  \<open>py_error\<close>, so every division of the source that can raise is a branch
  of the model.
\<close>

datatype py_error = ZeroDivisionError | FileNotFoundError | IndexError

definition py_truediv :: "real \<Rightarrow> real \<Rightarrow> py_error + real" where
  \<comment> \<open>Python's \<^verbatim>\<open>a / b\<close>.\<close>
  "py_truediv a b = (if b = 0 then Inl ZeroDivisionError else Inr (a / b))"

definition py_mod :: "int \<Rightarrow> int \<Rightarrow> py_error + int" where
  \<comment> \<open>Python's \<^verbatim>\<open>a % b\<close> on integers (the sign follows the divisor, as HOL's \<open>mod\<close>).\<close>
  "py_mod a b = (if b = 0 then Inl ZeroDivisionError else Inr (a mod b))"

section \<open>Ensemble statistics of \<^verbatim>\<open>analyze_state\<close>\<close>

text \<open>
  \<^verbatim>\<open>below_initial = sum(1 for x in dem_wins_list if x < initial_dem_wins)\<close>,
  \<^verbatim>\<open>equal_initial = sum(1 for x in dem_wins_list if x == initial_dem_wins)\<close>,
  \<^verbatim>\<open>percentile = ((below_initial + 0.5 * equal_initial) / len(dem_wins_list)) * 100\<close>;
  the three lines are the same in \<^verbatim>\<open>single_state_detection.py\<close>,
  \<^verbatim>\<open>single_state_detection_v2.py\<close> and \<^verbatim>\<open>multi_state_detection.py\<close>.
\<close>

definition below_initial :: "int list \<Rightarrow> int \<Rightarrow> int" where
  "below_initial dem_wins_list initial_dem_wins =
     sum_list (map (\<lambda>x. 1) (filter (\<lambda>x. x < initial_dem_wins) dem_wins_list))"

definition equal_initial :: "int list \<Rightarrow> int \<Rightarrow> int" where
  "equal_initial dem_wins_list initial_dem_wins =
     sum_list (map (\<lambda>x. 1) (filter (\<lambda>x. x = initial_dem_wins) dem_wins_list))"

definition percentile :: "int list \<Rightarrow> int \<Rightarrow> py_error + real" where
  "percentile dem_wins_list initial_dem_wins =
     (case py_truediv
             (of_int (below_initial dem_wins_list initial_dem_wins)
               + 0.5 * of_int (equal_initial dem_wins_list initial_dem_wins))
             (of_nat (length dem_wins_list)) of
        Inl e \<Rightarrow> Inl e
      | Inr q \<Rightarrow> Inr (q * 100))"

text \<open>
  \<^verbatim>\<open>np.mean\<close> and \<^verbatim>\<open>np.std\<close> (population formula, \<^verbatim>\<open>ddof = 0\<close>) on a
  non-empty list; the scripts call them only after \<^verbatim>\<open>if not dem_wins_list: return None\<close>.
\<close>

definition np_mean :: "real list \<Rightarrow> real" where
  "np_mean xs = sum_list xs / of_nat (length xs)"

definition np_std :: "real list \<Rightarrow> real" where
  "np_std xs = sqrt (np_mean (map (\<lambda>x. \<bar>x - np_mean xs\<bar> ^ 2) xs))"

text \<open>
  \<^verbatim>\<open>z_score = (initial_dem_wins - mean_dem) / std_dem if std_dem > 0 else 0\<close>
\<close>

definition z_score :: "int \<Rightarrow> real \<Rightarrow> real \<Rightarrow> real" where
  "z_score initial_dem_wins mean_dem std_dem =
     (if std_dem > 0 then (of_int initial_dem_wins - mean_dem) / std_dem else 0)"

definition ensemble_z_score :: "int list \<Rightarrow> int \<Rightarrow> real" where
  \<comment> \<open>\<^verbatim>\<open>mean_dem = np.mean(dem_wins_list); std_dem = np.std(dem_wins_list)\<close>, then the z-score.\<close>
  "ensemble_z_score dem_wins_list initial_dem_wins =
     (let mean_dem = np_mean (map of_int dem_wins_list);
          std_dem = np_std (map of_int dem_wins_list)
      in z_score initial_dem_wins mean_dem std_dem)"

text \<open>
  \<^verbatim>\<open>single_state_detection.py\<close> and \<^verbatim>\<open>multi_state_detection.py\<close>:
  \<^verbatim>\<open>is_outlier = percentile < 5 or percentile > 95\<close>.
\<close>

definition is_outlier :: "real \<Rightarrow> bool" where
  "is_outlier p = (p < 5 \<or> p > 95)"

text \<open>
  \<^verbatim>\<open>single_state_detection_v2.py\<close> reads the module constant
  \<^verbatim>\<open>OUTLIER_THRESHOLD = 10  # Flag if < 10th or > 90th percentile (was 5%)\<close>:
  \<^verbatim>\<open>percentile_outlier = percentile < OUTLIER_THRESHOLD or percentile > (100 - OUTLIER_THRESHOLD)\<close>.
  The constant is a parameter of the model; \<open>OUTLIER_THRESHOLD\<close> is the value the
  script ships with.
\<close>

definition OUTLIER_THRESHOLD :: real where
  "OUTLIER_THRESHOLD = 10"

definition percentile_outlier :: "real \<Rightarrow> real \<Rightarrow> bool" where
  "percentile_outlier threshold p = (p < threshold \<or> p > 100 - threshold)"

section \<open>Partitions and district statistics\<close>

text \<open>
  The scripts read four things of a GerryChain \<^verbatim>\<open>Partition\<close>:
  \<^verbatim>\<open>partition.parts.keys()\<close> and the three \<^verbatim>\<open>Tally\<close> updaters
  \<^verbatim>\<open>partition["dem_votes"][district]\<close>, \<^verbatim>\<open>partition["rep_votes"][district]\<close>,
  \<^verbatim>\<open>partition["population"][district]\<close>. The record holds these; the graph and
  the assignment, which only the library reads, live in the record's extension.
  The keys of a dict are distinct.
\<close>

record 'd partition =
  parts_keys :: "'d list"
  tally_dem_votes :: "'d \<Rightarrow> real"
  tally_rep_votes :: "'d \<Rightarrow> real"
  tally_population :: "'d \<Rightarrow> real"

definition py_bind :: "py_error + 'a \<Rightarrow> ('a \<Rightarrow> py_error + 'b) \<Rightarrow> py_error + 'b" where
  \<comment> \<open>Sequencing: an exception of the first computation skips the rest.\<close>
  "py_bind m f = (case m of Inl e \<Rightarrow> Inl e | Inr a \<Rightarrow> f a)"

fun py_for :: "('a \<Rightarrow> py_error + 'b) \<Rightarrow> 'a list \<Rightarrow> py_error + 'b list" where
  \<comment> \<open>A \<^verbatim>\<open>for\<close> loop that appends one item per element and stops at the first exception.\<close>
  "py_for f [] = Inr []"
| "py_for f (x # xs) = py_bind (f x) (\<lambda>y. py_bind (py_for f xs) (\<lambda>ys. Inr (y # ys)))"

text \<open>
  The seat count, the same generator expression in every \<^verbatim>\<open>run_ensemble\<close> and
  \<^verbatim>\<open>analyze_state\<close>:
  \<^verbatim>\<open>sum(1 for district in partition.parts.keys()
        if partition["dem_votes"][district] > partition["rep_votes"][district])\<close>
\<close>

definition dem_wins :: "('d, 'z) partition_scheme \<Rightarrow> int" where
  "dem_wins part =
     sum_list (map (\<lambda>district. 1)
       (filter (\<lambda>district. tally_dem_votes part district > tally_rep_votes part district)
          (parts_keys part)))"

text \<open>
  The reporting loop of \<^verbatim>\<open>create_fair_districts\<close> (\<^verbatim>\<open>gerrymandering_detection.py\<close>):
  \<^verbatim>\<open>winner = "DEM" if dem > rep else "REP"\<close>, \<^verbatim>\<open>if dem > rep: dem_wins += 1\<close>.
  The state of the loop is the counter \<^verbatim>\<open>dem_wins\<close> and the winners printed so far.
\<close>

fun fair_districts_loop ::
  "('d, 'z) partition_scheme \<Rightarrow> int \<times> string list \<Rightarrow> 'd list \<Rightarrow> int \<times> string list" where
  "fair_districts_loop part (wins, printed) [] = (wins, printed)"
| "fair_districts_loop part (wins, printed) (district_id # rest) =
     (let dem = tally_dem_votes part district_id;
          rep = tally_rep_votes part district_id;
          w = (if dem > rep then ''DEM'' else ''REP'');
          wins = (if dem > rep then wins + 1 else wins)
      in fair_districts_loop part (wins, printed @ [w]) rest)"

definition create_fair_districts_report :: "('d, 'z) partition_scheme \<Rightarrow> int \<times> string list" where
  "create_fair_districts_report part =
     fair_districts_loop part (0, []) (parts_keys part)"

text \<open>
  \<^verbatim>\<open>get_district_statistics\<close> (\<^verbatim>\<open>single_state_detection_v2.py\<close>): one dict per
  district, in the order of \<^verbatim>\<open>sorted(partition.parts.keys())\<close>.
\<close>

record 'd district_stats =
  district :: 'd
  dem_votes :: real
  rep_votes :: real
  total_votes :: real
  dem_pct :: real
  rep_pct :: real
  winner :: string
  margin :: real
  margin_pct :: real
  population :: real

definition district_statistics :: "('d, 'z) partition_scheme \<Rightarrow> 'd \<Rightarrow> py_error + 'd district_stats" where
  \<comment> \<open>The body of the loop of \<^verbatim>\<open>get_district_statistics\<close>.\<close>
  "district_statistics part d =
     (let dem = tally_dem_votes part d;
          rep = tally_rep_votes part d;
          total = dem + rep
      in py_bind
           (if total > 0
            then py_bind (py_truediv dem total) (\<lambda>q1.
                 py_bind (py_truediv rep total) (\<lambda>q2. Inr (q1 * 100, q2 * 100)))
            else Inr (0, 0))
           (\<lambda>(dpct, rpct).
              let w = (if dem > rep then ''DEM'' else ''REP'');
                  m = \<bar>dem - rep\<bar>
              in py_bind
                   (if total > 0
                    then py_bind (py_truediv m total) (\<lambda>q. Inr (q * 100))
                    else Inr 0)
                   (\<lambda>mpct. Inr \<lparr> district = d, dem_votes = dem, rep_votes = rep,
                       total_votes = total, dem_pct = dpct, rep_pct = rpct, winner = w,
                       margin = m, margin_pct = mpct,
                       population = tally_population part d \<rparr>)))"

definition get_district_statistics ::
  "('d::linorder, 'z) partition_scheme \<Rightarrow> py_error + 'd district_stats list" where
  "get_district_statistics part =
     py_for (district_statistics part) (sort (parts_keys part))"

text \<open>
  \<^verbatim>\<open>calculate_ensemble_average_map\<close>: \<^verbatim>\<open>None\<close> for no samples; otherwise the
  districts of the first sample, each with the lists collected from every sample that
  has the district, averaged by \<^verbatim>\<open>np.mean\<close>.
\<close>

definition collected ::
  "(('d, 'z) partition_scheme \<Rightarrow> 'd \<Rightarrow> real) \<Rightarrow> ('d, 'z) partition_scheme list \<Rightarrow> 'd \<Rightarrow> real list" where
  \<comment> \<open>\<^verbatim>\<open>avg_stats[district][...]\<close> after the collecting loop.\<close>
  "collected tally partitions_sample d =
     concat (map (\<lambda>part.
        map (tally part) (filter (\<lambda>k. k = d) (parts_keys part))) partitions_sample)"

definition average_statistics ::
  "('d, 'z) partition_scheme list \<Rightarrow> 'd \<Rightarrow> py_error + 'd district_stats" where
  \<comment> \<open>The body of the averaging loop.\<close>
  "average_statistics partitions_sample d =
     (let dem_avg = np_mean (collected tally_dem_votes partitions_sample d);
          rep_avg = np_mean (collected tally_rep_votes partitions_sample d);
          total_avg = dem_avg + rep_avg
      in py_bind
           (if total_avg > 0
            then py_bind (py_truediv dem_avg total_avg) (\<lambda>q. Inr (q * 100)) else Inr 0)
           (\<lambda>dpct.
         py_bind
           (if total_avg > 0
            then py_bind (py_truediv rep_avg total_avg) (\<lambda>q. Inr (q * 100)) else Inr 0)
           (\<lambda>rpct.
              let w = (if dem_avg > rep_avg then ''DEM'' else ''REP'');
                  m = \<bar>dem_avg - rep_avg\<bar>
              in py_bind
                   (if total_avg > 0
                    then py_bind (py_truediv m total_avg) (\<lambda>q. Inr (q * 100))
                    else Inr 0)
                   (\<lambda>mpct. Inr \<lparr> district = d, dem_votes = dem_avg, rep_votes = rep_avg,
                       total_votes = total_avg, dem_pct = dpct, rep_pct = rpct, winner = w,
                       margin = m, margin_pct = mpct,
                       population = np_mean (collected tally_population partitions_sample d) \<rparr>))))"

definition calculate_ensemble_average_map ::
  "('d::linorder, 'z) partition_scheme list \<Rightarrow> py_error + 'd district_stats list option" where
  "calculate_ensemble_average_map partitions_sample =
     (case partitions_sample of
        [] \<Rightarrow> Inr None
      | first # _ \<Rightarrow>
          (let all_districts = parts_keys first
           in py_bind
                (py_for (average_statistics partitions_sample) (sort (remdups all_districts)))
                (\<lambda>result. Inr (Some result))))"

text \<open>
  The packing criterion of \<^verbatim>\<open>analyze_state\<close> (\<^verbatim>\<open>single_state_detection_v2.py\<close>):
  \<^verbatim>\<open>dem_packing = any(stats['dem_pct'] > 65 and stats['winner'] == 'DEM' for stats in initial_district_stats)\<close>,
  \<^verbatim>\<open>rep_packing = any(stats['rep_pct'] > 65 and stats['winner'] == 'REP' for stats in initial_district_stats)\<close>,
  \<^verbatim>\<open>has_packing = dem_packing or rep_packing\<close>.
\<close>

definition dem_packing :: "'d district_stats list \<Rightarrow> bool" where
  "dem_packing initial_district_stats =
     list_ex (\<lambda>stats. dem_pct stats > 65 \<and> winner stats = ''DEM'') initial_district_stats"

definition rep_packing :: "'d district_stats list \<Rightarrow> bool" where
  "rep_packing initial_district_stats =
     list_ex (\<lambda>stats. rep_pct stats > 65 \<and> winner stats = ''REP'') initial_district_stats"

definition has_packing :: "'d district_stats list \<Rightarrow> bool" where
  "has_packing initial_district_stats =
     (dem_packing initial_district_stats \<or> rep_packing initial_district_stats)"

section \<open>The dual graph and its loader\<close>

text \<open>
  An undirected graph as the loaders use it: the node list and the edge list.
  \<open>degree\<close> and \<open>remove_nodes_from\<close> follow networkx: a self-loop counts twice in the
  degree, and removing a node removes the edges at it.
\<close>

record 'n graph =
  nodes :: "'n list"
  edges :: "('n \<times> 'n) list"

definition degree :: "'n graph \<Rightarrow> 'n \<Rightarrow> nat" where
  "degree g n =
     length (filter (\<lambda>e. fst e = n) (edges g)) + length (filter (\<lambda>e. snd e = n) (edges g))"

definition remove_nodes_from :: "'n graph \<Rightarrow> 'n list \<Rightarrow> 'n graph" where
  "remove_nodes_from g ns =
     \<lparr> nodes = filter (\<lambda>n. n \<notin> set ns) (nodes g),
       edges = filter (\<lambda>e. fst e \<notin> set ns \<and> snd e \<notin> set ns) (edges g) \<rparr>"

text \<open>
  The three lines every loader shares:
  \<^verbatim>\<open>isolated_nodes = [node for node in graph.nodes() if graph.degree(node) == 0]\<close>,
  \<^verbatim>\<open>if isolated_nodes: graph.remove_nodes_from(isolated_nodes)\<close>.
\<close>

definition remove_isolated_nodes :: "'n graph \<Rightarrow> 'n graph" where
  "remove_isolated_nodes g =
     (let isolated_nodes = filter (\<lambda>node. degree g node = 0) (nodes g)
      in if isolated_nodes \<noteq> [] then remove_nodes_from g isolated_nodes else g)"

text \<open>
  \<^verbatim>\<open>load_state_data\<close> (\<^verbatim>\<open>single_state_detection.py\<close>, \<^verbatim>\<open>single_state_detection_v2.py\<close>,
  \<^verbatim>\<open>multi_state_detection.py\<close>): the argument is what reading the shapefile gave,
  a graph or \<^verbatim>\<open>None\<close> for an exception (after the geometry repair of the single-state
  scripts); every exception is caught and \<^verbatim>\<open>None\<close> is returned.
\<close>

definition load_state_data :: "'n graph option \<Rightarrow> 'n graph option" where
  "load_state_data from_file =
     (case from_file of None \<Rightarrow> None | Some graph \<Rightarrow> Some (remove_isolated_nodes graph))"

text \<open>
  The start of every \<^verbatim>\<open>analyze_state\<close>: \<^verbatim>\<open>graph = load_state_data(...)\<close>,
  \<^verbatim>\<open>if not graph: return None\<close> (an empty graph is falsy), and this graph is the one
  handed to \<^verbatim>\<open>create_initial_partition\<close>.
\<close>

definition graph_for_partition :: "'n graph option \<Rightarrow> 'n graph option" where
  "graph_for_partition from_file =
     (case load_state_data from_file of
        None \<Rightarrow> None
      | Some graph \<Rightarrow> if nodes graph = [] then None else Some graph)"

text \<open>
  \<^verbatim>\<open>load_real_data\<close> (\<^verbatim>\<open>real_data_simple.py\<close>) does not catch: a missing file raises
  \<^verbatim>\<open>FileNotFoundError\<close>, and \<^verbatim>\<open>list(graph.nodes())[0]\<close> raises \<^verbatim>\<open>IndexError\<close> on a
  graph left empty.
\<close>

definition load_real_data :: "'n graph option \<Rightarrow> py_error + 'n graph" where
  "load_real_data from_file =
     (case from_file of
        None \<Rightarrow> Inl FileNotFoundError
      | Some graph \<Rightarrow>
          (let graph = remove_isolated_nodes graph
           in if nodes graph = [] then Inl IndexError else Inr graph))"

section \<open>The Markov chain\<close>

text \<open>
  The scripts import the chain, its proposals and its constraints from the GerryChain
  library. The library functions are parameters of the model: \<open>check\<close> decides a
  constraint on a partition (\<^verbatim>\<open>contiguous\<close>, \<^verbatim>\<open>single_flip_contiguous\<close> and the
  closure \<^verbatim>\<open>within_percent_of_ideal_population(initial_partition, epsilon)\<close>), and a
  proposal maps the random generator's state and the current partition to a candidate
  and the next generator state (\<^verbatim>\<open>recom\<close> with the arguments that \<^verbatim>\<open>partial\<close> fixes:
  \<^verbatim>\<open>pop_col\<close>, \<^verbatim>\<open>pop_target\<close>, \<^verbatim>\<open>epsilon\<close>, \<^verbatim>\<open>node_repeats\<close>).
\<close>

datatype 'p constraint =
    SingleFlipContiguous
  | Contiguous
  | WithinPercentOfIdealPopulation 'p real

record ('p, 'r) gerrychain =
  check :: "'p constraint \<Rightarrow> 'p \<Rightarrow> bool"
  propose_random_flip :: "'r \<Rightarrow> 'p \<Rightarrow> 'p \<times> 'r"
  recom :: "string \<Rightarrow> real \<Rightarrow> real \<Rightarrow> nat \<Rightarrow> 'r \<Rightarrow> 'p \<Rightarrow> 'p \<times> 'r"

text \<open>
  Modelled from the spec: the class \<^verbatim>\<open>MarkovChain\<close> (the spec's ChainDriver) belongs
  to the GerryChain library and is not among the sources. Section 4.6 of the spec:
  the configuration is a proposal, ordered constraints, an acceptance function on
  (current, candidate), an initial state and the step count N; a step generates one
  candidate; if a constraint fails the current state is repeated as the step's output,
  otherwise the candidate becomes current if accepted and the current state repeats if
  not; N states are emitted in order.
\<close>

record ('p, 'r) markov_chain =
  proposal :: "'r \<Rightarrow> 'p \<Rightarrow> 'p \<times> 'r"
  constraints :: "'p constraint list"
  accept :: "'p \<Rightarrow> 'p \<Rightarrow> bool"
  initial_state :: 'p
  total_steps :: int

definition chain_step ::
  "('p, 'r) gerrychain \<Rightarrow> ('p, 'r) markov_chain \<Rightarrow> 'p \<times> 'r \<Rightarrow> 'p \<times> 'r" where
  \<comment> \<open>Modelled from the spec: one step of the ChainDriver, on (current state, generator).\<close>
  "chain_step lib chain st =
     (case st of (current, rng) \<Rightarrow>
        (case proposal chain rng current of (candidate, rng') \<Rightarrow>
           if list_all (\<lambda>c. check lib c candidate) (constraints chain)
           then (if accept chain current candidate then (candidate, rng') else (current, rng'))
           else (current, rng')))"

fun chain_states ::
  "('p, 'r) gerrychain \<Rightarrow> ('p, 'r) markov_chain \<Rightarrow> nat \<Rightarrow> 'p \<times> 'r \<Rightarrow> 'p list" where
  \<comment> \<open>Modelled from the spec: the outputs of the next n steps.\<close>
  "chain_states lib chain 0 st = []"
| "chain_states lib chain (Suc n) st =
     (let st' = chain_step lib chain st in fst st' # chain_states lib chain n st')"

definition run_chain :: "('p, 'r) gerrychain \<Rightarrow> ('p, 'r) markov_chain \<Rightarrow> 'r \<Rightarrow> 'p list" where
  \<comment> \<open>Modelled from the spec: what iterating over the chain yields.\<close>
  "run_chain lib chain rng =
     chain_states lib chain (nat (total_steps chain)) (initial_state chain, rng)"

section \<open>The ensemble loops\<close>

text \<open>
  What \<^verbatim>\<open>run_ensemble\<close> prints is a list of events; the progress percentages are
  events too, since computing them can raise. A \<^verbatim>\<open>try\<close> block that catches every
  exception prints the error and returns \<^verbatim>\<open>None\<close>; what was printed before stays
  printed.
\<close>

datatype event =
    NotContiguousWarning
  | UsingContiguity
  | WithoutContiguity
  | UsingReCom bool
  | Progress int
  | Done
  | IdenticalResultsWarning
  | ErrorRunningEnsemble py_error

text \<open>
  \<^verbatim>\<open>run_ensemble(initial_partition, num_steps=500)\<close> of \<^verbatim>\<open>multi_state_detection.py\<close>:
  always \<^verbatim>\<open>single_flip_contiguous\<close>, no check of the initial partition, no progress
  output.
\<close>

fun multi_state_loop :: "int list \<Rightarrow> ('d, 'z) partition_scheme list \<Rightarrow> int list" where
  "multi_state_loop dem_wins_list [] = dem_wins_list"
| "multi_state_loop dem_wins_list (part # rest) =
     multi_state_loop (dem_wins_list @ [dem_wins part]) rest"

definition run_ensemble_multi_state ::
  "(('d, 'z) partition_scheme, 'r) gerrychain \<Rightarrow> 'r \<Rightarrow> ('d, 'z) partition_scheme \<Rightarrow> int
     \<Rightarrow> int list option" where
  "run_ensemble_multi_state lib rng initial_partition num_steps =
     (let chain = \<lparr> proposal = propose_random_flip lib,
                    constraints = [SingleFlipContiguous],
                    accept = (\<lambda>current candidate. True),
                    initial_state = initial_partition,
                    total_steps = num_steps \<rparr>
      in Some (multi_state_loop [] (run_chain lib chain rng)))"

text \<open>
  \<^verbatim>\<open>run_ensemble(initial_partition, num_steps=1000, use_contiguity=True)\<close> of
  \<^verbatim>\<open>single_state_detection.py\<close>. First the part before the loop: the contiguity check
  of the initial partition, the warning, and the chain it builds.
\<close>

definition single_state_chain ::
  "(('d, 'z) partition_scheme, 'r) gerrychain \<Rightarrow> ('d, 'z) partition_scheme \<Rightarrow> int \<Rightarrow> bool
     \<Rightarrow> event list \<times> (('d, 'z) partition_scheme, 'r) markov_chain" where
  "single_state_chain lib initial_partition num_steps use_contiguity =
     (let is_contiguous = check lib Contiguous initial_partition;
          warned = (use_contiguity \<and> \<not> is_contiguous);
          out = (if warned then [NotContiguousWarning] else []);
          use_contiguity = (if warned then False else use_contiguity);
          cs = (if use_contiguity then [SingleFlipContiguous] else []);
          out = (if use_contiguity then out @ [UsingContiguity] else out @ [WithoutContiguity])
      in (out, \<lparr> proposal = propose_random_flip lib,
                 constraints = cs,
                 accept = (\<lambda>current candidate. True),
                 initial_state = initial_partition,
                 total_steps = num_steps \<rparr>))"

text \<open>
  The loop \<^verbatim>\<open>for i, partition in enumerate(chain)\<close>: the progress line
  \<^verbatim>\<open>if (i + 1) % (num_steps // 10) == 0: print(f"{(i+1)*100//num_steps}%...")\<close>, then the
  seat count appended to \<^verbatim>\<open>dem_wins_list\<close>.
\<close>

fun single_state_loop ::
  "int \<Rightarrow> int \<Rightarrow> event list \<Rightarrow> int list \<Rightarrow> ('d, 'z) partition_scheme list
     \<Rightarrow> event list \<times> (py_error + int list)" where
  "single_state_loop num_steps i out dem_wins_list [] = (out, Inr dem_wins_list)"
| "single_state_loop num_steps i out dem_wins_list (part # rest) =
     (case py_mod (i + 1) (num_steps div 10) of
        Inl e \<Rightarrow> (out, Inl e)
      | Inr r \<Rightarrow>
          single_state_loop num_steps (i + 1)
            (if r = 0 then out @ [Progress ((i + 1) * 100 div num_steps)] else out)
            (dem_wins_list @ [dem_wins part]) rest)"

definition run_ensemble_single_state ::
  "(('d, 'z) partition_scheme, 'r) gerrychain \<Rightarrow> 'r \<Rightarrow> ('d, 'z) partition_scheme \<Rightarrow> int \<Rightarrow> bool
     \<Rightarrow> event list \<times> int list option" where
  "run_ensemble_single_state lib rng initial_partition num_steps use_contiguity =
     (case single_state_chain lib initial_partition num_steps use_contiguity of
        (out, chain) \<Rightarrow>
          (case single_state_loop num_steps 0 out [] (run_chain lib chain rng) of
             (out, Inl e) \<Rightarrow> (out @ [ErrorRunningEnsemble e], None)
           | (out, Inr dem_wins_list) \<Rightarrow> (out @ [Done], Some dem_wins_list)))"

text \<open>
  \<^verbatim>\<open>run_ensemble(initial_partition, pop_col_name, num_steps=5000, epsilon=0.05)\<close> of
  \<^verbatim>\<open>single_state_detection_v2.py\<close>. Before the loop: the contiguity check and its
  warning, \<^verbatim>\<open>ideal_pop = total_pop / num_districts\<close> (which raises for a partition
  without districts), the constraints and the ReCom proposal.
\<close>

definition v2_chain ::
  "(('d, 'z) partition_scheme, 'r) gerrychain \<Rightarrow> ('d, 'z) partition_scheme \<Rightarrow> string \<Rightarrow> int \<Rightarrow> real
     \<Rightarrow> event list \<times> (py_error + (('d, 'z) partition_scheme, 'r) markov_chain)" where
  "v2_chain lib initial_partition pop_col_name num_steps epsilon =
     (let use_contiguity = check lib Contiguous initial_partition;
          out = (if \<not> use_contiguity then [NotContiguousWarning] else []);
          total_pop = sum_list (map (tally_population initial_partition) (parts_keys initial_partition));
          num_districts = length (parts_keys initial_partition)
      in case py_truediv total_pop (of_nat num_districts) of
           Inl e \<Rightarrow> (out, Inl e)
         | Inr ideal_pop \<Rightarrow>
             (let cs = [WithinPercentOfIdealPopulation initial_partition epsilon]
                        @ (if use_contiguity then [Contiguous] else [])
              in (out @ [UsingReCom use_contiguity],
                  Inr \<lparr> proposal = recom lib pop_col_name ideal_pop epsilon 2,
                        constraints = cs,
                        accept = (\<lambda>current candidate. True),
                        initial_state = initial_partition,
                        total_steps = num_steps \<rparr>)))"

text \<open>
  The loop of the second version also keeps every \<^verbatim>\<open>sample_interval\<close>-th partition,
  \<^verbatim>\<open>sample_interval = max(1, num_steps // 100)\<close>.
\<close>

fun v2_loop ::
  "int \<Rightarrow> int \<Rightarrow> event list \<Rightarrow> int list \<Rightarrow> ('d, 'z) partition_scheme list
     \<Rightarrow> ('d, 'z) partition_scheme list
     \<Rightarrow> event list \<times> (py_error + int list \<times> ('d, 'z) partition_scheme list)" where
  "v2_loop num_steps i out dem_wins_list partitions_sample [] =
     (out, Inr (dem_wins_list, partitions_sample))"
| "v2_loop num_steps i out dem_wins_list partitions_sample (part # rest) =
     (case py_mod (i + 1) (num_steps div 10) of
        Inl e \<Rightarrow> (out, Inl e)
      | Inr r \<Rightarrow>
          v2_loop num_steps (i + 1)
            (if r = 0 then out @ [Progress ((i + 1) * 100 div num_steps)] else out)
            (dem_wins_list @ [dem_wins part])
            (if i mod (max 1 (num_steps div 100)) = 0
             then partitions_sample @ [part] else partitions_sample)
            rest)"

definition run_ensemble_v2 ::
  "(('d, 'z) partition_scheme, 'r) gerrychain \<Rightarrow> 'r \<Rightarrow> ('d, 'z) partition_scheme \<Rightarrow> string \<Rightarrow> int
     \<Rightarrow> real \<Rightarrow> event list \<times> (int list \<times> ('d, 'z) partition_scheme list) option" where
  "run_ensemble_v2 lib rng initial_partition pop_col_name num_steps epsilon =
     (case v2_chain lib initial_partition pop_col_name num_steps epsilon of
        (out, Inl e) \<Rightarrow> (out @ [ErrorRunningEnsemble e], None)
      | (out, Inr chain) \<Rightarrow>
          (case v2_loop num_steps 0 out [] [] (run_chain lib chain rng) of
             (out, Inl e) \<Rightarrow> (out @ [ErrorRunningEnsemble e], None)
           | (out, Inr (dem_wins_list, partitions_sample)) \<Rightarrow>
               (let out = out @ [Done];
                    out = (if length (remdups dem_wins_list) = 1
                           then out @ [IdenticalResultsWarning] else out)
                in (out, Some (dem_wins_list, partitions_sample)))))"

section \<open>The analysis of \<^verbatim>\<open>single_state_detection_v2.py\<close>\<close>

text \<open>
  The dict that \<^verbatim>\<open>analyze_state\<close> returns is an association list from its keys, in
  the order of the dict literal, to Python values. \<^verbatim>\<open>round\<close> is idealised on reals
  (ties to even), \<^verbatim>\<open>int\<close> truncates toward zero.
\<close>

datatype py_value =
    PyStr string
  | PyInt int
  | PyFloat real
  | PyBool bool
  | PyDict "(int \<times> int) list"

definition py_round :: "real \<Rightarrow> nat \<Rightarrow> real" where
  "py_round x ndigits =
     (let y = x * 10 ^ ndigits;
          f = \<lfloor>y\<rfloor>;
          r = (if y - of_int f < 1 / 2 then f
               else if y - of_int f > 1 / 2 then f + 1
               else if even f then f else f + 1)
      in of_int r / 10 ^ ndigits)"

definition py_int :: "real \<Rightarrow> int" where
  "py_int x = (if x \<ge> 0 then \<lfloor>x\<rfloor> else \<lceil>x\<rceil>)"

text \<open>
  \<^verbatim>\<open>for wins in dem_wins_list: histogram[wins] = histogram.get(wins, 0) + 1\<close>
\<close>

fun histogram_add :: "(int \<times> int) list \<Rightarrow> int \<Rightarrow> (int \<times> int) list" where
  "histogram_add [] wins = [(wins, 1)]"
| "histogram_add ((k, c) # h) wins =
     (if k = wins then (k, c + 1) # h else (k, c) # histogram_add h wins)"

definition histogram_of :: "int list \<Rightarrow> (int \<times> int) list" where
  "histogram_of dem_wins_list = foldl histogram_add [] dem_wins_list"

text \<open>
  The four criteria and the verdict:
  \<^verbatim>\<open>large_seats_votes_gap = abs(seat_vote_gap_dem) > 15 or abs(seat_vote_gap_rep) > 15\<close>,
  \<^verbatim>\<open>large_seat_difference = abs(initial_dem_wins - mean_dem) >= 2.0\<close>,
  \<^verbatim>\<open>is_gerrymandered = percentile_outlier or (large_seats_votes_gap and has_packing)
      or (large_seat_difference and large_seats_votes_gap)\<close>.
\<close>

definition large_seats_votes_gap :: "real \<Rightarrow> real \<Rightarrow> bool" where
  "large_seats_votes_gap seat_vote_gap_dem seat_vote_gap_rep =
     (\<bar>seat_vote_gap_dem\<bar> > 15 \<or> \<bar>seat_vote_gap_rep\<bar> > 15)"

definition large_seat_difference :: "int \<Rightarrow> real \<Rightarrow> bool" where
  "large_seat_difference initial_dem_wins mean_dem =
     (\<bar>of_int initial_dem_wins - mean_dem\<bar> \<ge> 2)"

definition is_gerrymandered :: "bool \<Rightarrow> bool \<Rightarrow> bool \<Rightarrow> bool \<Rightarrow> bool" where
  "is_gerrymandered outlier gap packing difference =
     (outlier \<or> (gap \<and> packing) \<or> (difference \<and> gap))"

text \<open>
  The statistics of a non-empty \<^verbatim>\<open>dem_wins_list\<close> and the returned dict. The arguments are
  the locals of \<^verbatim>\<open>analyze_state\<close> computed before the ensemble runs.
\<close>

definition analysis_record ::
  "string \<Rightarrow> int \<Rightarrow> int \<Rightarrow> int \<Rightarrow> real \<Rightarrow> real \<Rightarrow> real \<Rightarrow> real \<Rightarrow> real \<Rightarrow> real
     \<Rightarrow> 'd district_stats list \<Rightarrow> int \<Rightarrow> int \<Rightarrow> int list \<Rightarrow> real
     \<Rightarrow> (string \<times> py_value) list" where
  "analysis_record state_name precincts num_districts initial_dem_wins
       dem_vote_share rep_vote_share total_dem total_rep seat_vote_gap_dem seat_vote_gap_rep
       initial_district_stats num_steps first_wins more_wins pct =
     (let dem_wins_list = first_wins # more_wins;
          mean_dem = np_mean (map of_int dem_wins_list);
          std_dem = np_std (map of_int dem_wins_list);
          min_dem = fold min more_wins first_wins;
          max_dem = fold max more_wins first_wins;
          z = z_score initial_dem_wins mean_dem std_dem;
          outlier = percentile_outlier OUTLIER_THRESHOLD pct;
          gap = large_seats_votes_gap seat_vote_gap_dem seat_vote_gap_rep;
          packing = has_packing initial_district_stats;
          difference = large_seat_difference initial_dem_wins mean_dem
      in [(''state'', PyStr state_name),
          (''precincts'', PyInt precincts),
          (''num_districts'', PyInt num_districts),
          (''initial_dem_wins'', PyInt initial_dem_wins),
          (''dem_vote_share'', PyFloat (py_round dem_vote_share 2)),
          (''rep_vote_share'', PyFloat (py_round rep_vote_share 2)),
          (''total_dem_votes'', PyInt (py_int total_dem)),
          (''total_rep_votes'', PyInt (py_int total_rep)),
          (''ensemble_mean'', PyFloat (py_round mean_dem 2)),
          (''ensemble_std'', PyFloat (py_round std_dem 2)),
          (''ensemble_min'', PyInt min_dem),
          (''ensemble_max'', PyInt max_dem),
          (''percentile'', PyFloat (py_round pct 1)),
          (''z_score'', PyFloat (py_round z 2)),
          (''is_gerrymandered'', PyBool (is_gerrymandered outlier gap packing difference)),
          (''percentile_outlier'', PyBool outlier),
          (''large_seats_votes_gap'', PyBool gap),
          (''has_packing'', PyBool packing),
          (''large_seat_difference'', PyBool difference),
          (''ensemble_steps'', PyInt num_steps),
          (''histogram'', PyDict (histogram_of dem_wins_list)),
          (''seat_vote_gap_dem'', PyFloat (py_round seat_vote_gap_dem 1)),
          (''seat_vote_gap_rep'', PyFloat (py_round seat_vote_gap_rep 1))])"

text \<open>
  \<^verbatim>\<open>analyze_state\<close> from the initial partition on (loading the shapefile, detecting
  the columns and building the partition come before and are inputs here:
  \<^verbatim>\<open>precincts = len(graph.nodes)\<close>, \<^verbatim>\<open>num_districts\<close>, the partition, the population
  column). The seat shares divide by \<^verbatim>\<open>num_districts\<close> outside any \<^verbatim>\<open>try\<close>.
  \<^verbatim>\<open>if not dem_wins_list: return None\<close> covers both \<^verbatim>\<open>None\<close> and the empty list. Of the
  output only what \<^verbatim>\<open>run_ensemble\<close> prints is kept.
\<close>

definition analyze_ensemble ::
  "string \<Rightarrow> int \<Rightarrow> int \<Rightarrow> int \<Rightarrow> real \<Rightarrow> real \<Rightarrow> real \<Rightarrow> real \<Rightarrow> real \<Rightarrow> real
     \<Rightarrow> 'd district_stats list \<Rightarrow> int
     \<Rightarrow> (int list \<times> ('d::linorder, 'z) partition_scheme list) option
     \<Rightarrow> py_error + (string \<times> py_value) list option" where
  \<comment> \<open>From \<^verbatim>\<open>if not dem_wins_list: return None\<close> to the \<^verbatim>\<open>return\<close>.\<close>
  "analyze_ensemble state_name precincts num_districts initial_dem_wins
       dem_vote_share rep_vote_share total_dem total_rep seat_vote_gap_dem seat_vote_gap_rep
       initial_district_stats num_steps ensemble =
     (case ensemble of
        None \<Rightarrow> Inr None
      | Some ([], partitions_sample) \<Rightarrow> Inr None
      | Some (first_wins # more_wins, partitions_sample) \<Rightarrow>
          py_bind (calculate_ensemble_average_map partitions_sample) (\<lambda>ensemble_avg_stats.
          py_bind (percentile (first_wins # more_wins) initial_dem_wins) (\<lambda>pct.
          Inr (Some (analysis_record state_name precincts num_districts initial_dem_wins
             dem_vote_share rep_vote_share total_dem total_rep seat_vote_gap_dem seat_vote_gap_rep
             initial_district_stats num_steps first_wins more_wins pct)))))"

definition analyze_state_v2 ::
  "(('d::linorder, 'z) partition_scheme, 'r) gerrychain \<Rightarrow> 'r \<Rightarrow> string \<Rightarrow> int \<Rightarrow> int
     \<Rightarrow> ('d, 'z) partition_scheme \<Rightarrow> string \<Rightarrow> int \<Rightarrow> real
     \<Rightarrow> event list \<times> (py_error + (string \<times> py_value) list option)" where
  "analyze_state_v2 lib rng state_name precincts num_districts part pop_col num_steps epsilon =
     (case get_district_statistics part of
        Inl e \<Rightarrow> ([], Inl e)
      | Inr initial_district_stats \<Rightarrow>
          (let initial_dem_wins = dem_wins part;
               total_dem = sum_list (map (tally_dem_votes part) (parts_keys part));
               total_rep = sum_list (map (tally_rep_votes part) (parts_keys part));
               total_votes = total_dem + total_rep;
               dem_vote_share = (if total_votes > 0 then total_dem / total_votes * 100 else 0);
               rep_vote_share = (if total_votes > 0 then total_rep / total_votes * 100 else 0)
           in case py_bind (py_truediv (of_int initial_dem_wins) (of_int num_districts))
                     (\<lambda>dem_seats.
                   py_bind (py_truediv (of_int (num_districts - initial_dem_wins))
                              (of_int num_districts))
                     (\<lambda>rep_seats.
                   Inr (dem_seats * 100 - dem_vote_share, rep_seats * 100 - rep_vote_share))) of
                Inl e \<Rightarrow> ([], Inl e)
              | Inr (seat_vote_gap_dem, seat_vote_gap_rep) \<Rightarrow>
                  (case run_ensemble_v2 lib rng part pop_col num_steps epsilon of
                     (out, ensemble) \<Rightarrow>
                       (out, analyze_ensemble state_name precincts num_districts initial_dem_wins
                               dem_vote_share rep_vote_share total_dem total_rep
                               seat_vote_gap_dem seat_vote_gap_rep
                               initial_district_stats num_steps ensemble))))"

text \<open>
  Two readings of a result, used to state what the returned dict holds: its keys, and
  its entries with a Boolean value.
\<close>

fun bool_entries :: "(string \<times> py_value) list \<Rightarrow> (string \<times> bool) list" where
  "bool_entries [] = []"
| "bool_entries ((k, PyBool b) # r) = (k, b) # bool_entries r"
| "bool_entries ((k, v) # r) = bool_entries r"

definition returned_keys ::
  "event list \<times> (py_error + (string \<times> py_value) list option) \<Rightarrow> string list option" where
  "returned_keys res =
     (case snd res of Inr (Some r) \<Rightarrow> Some (map fst r) | _ \<Rightarrow> None)"

definition returned_flags ::
  "event list \<times> (py_error + (string \<times> py_value) list option) \<Rightarrow> (string \<times> bool) list option" where
  "returned_flags res =
     (case snd res of Inr (Some r) \<Rightarrow> Some (bool_entries r) | _ \<Rightarrow> None)"

text \<open>
  Two libraries on which the chain is run below. The generator state is one bit.
  \<open>stuck_library\<close> proposes the current partition again at every step;
  \<open>mixing_library\<close> proposes \<open>two_seat_partition\<close> and \<open>one_seat_partition\<close> in turn.
  Every constraint holds in both.
\<close>

definition one_seat_partition :: "int partition" where
  "one_seat_partition =
     \<lparr> parts_keys = [1, 2],
       tally_dem_votes = (\<lambda>d. if d = 1 then 60 else 40),
       tally_rep_votes = (\<lambda>d. if d = 1 then 40 else 60),
       tally_population = (\<lambda>d. 100) \<rparr>"

definition two_seat_partition :: "int partition" where
  "two_seat_partition =
     \<lparr> parts_keys = [1, 2],
       tally_dem_votes = (\<lambda>d. 51),
       tally_rep_votes = (\<lambda>d. 49),
       tally_population = (\<lambda>d. 100) \<rparr>"

definition stuck_library :: "(int partition, bool) gerrychain" where
  "stuck_library =
     \<lparr> check = (\<lambda>c p. True),
       propose_random_flip = (\<lambda>rng p. (p, \<not> rng)),
       recom = (\<lambda>pop_col pop_target epsilon node_repeats rng p. (p, \<not> rng)) \<rparr>"

definition mixing_library :: "(int partition, bool) gerrychain" where
  "mixing_library =
     \<lparr> check = (\<lambda>c p. True),
       propose_random_flip =
         (\<lambda>rng p. (if rng then two_seat_partition else one_seat_partition, \<not> rng)),
       recom =
         (\<lambda>pop_col pop_target epsilon node_repeats rng p.
            (if rng then two_seat_partition else one_seat_partition, \<not> rng)) \<rparr>"

section \<open>Counting lemmas\<close>

lemma sum_list_ones: "sum_list (map (\<lambda>x. 1::int) xs) = int (length xs)"
  by (induction xs) simp_all

lemma below_initial_length:
  "below_initial xs e = int (length (filter (\<lambda>x. x < e) xs))"
  by (simp add: below_initial_def sum_list_ones)

lemma equal_initial_count: "equal_initial xs e = int (count_list xs e)"
proof -
  have "length (filter (\<lambda>x. x = e) xs) = count_list xs e"
    by (induction xs) simp_all
  then show ?thesis
    by (simp add: equal_initial_def sum_list_ones)
qed

lemma only_two_values:
  assumes len: "length xs = count_list xs a + count_list xs b" and ab: "a \<noteq> b"
  shows "\<forall>x \<in> set xs. x = a \<or> x = b"
  using len
proof (induction xs)
  case Nil
  then show ?case by simp
next
  case (Cons y ys)
  have bound: "count_list ys a + count_list ys b \<le> length ys"
  proof (induction ys)
    case Nil
    then show ?case by simp
  next
    case (Cons z zs)
    then show ?case using ab by auto
  qed
  show ?case
  proof (cases "y = a \<or> y = b")
    case True
    with Cons ab show ?thesis by auto
  next
    case False
    with Cons.prems bound show ?thesis by simp
  qed
qed

lemma below_is_lower_value:
  fixes a b :: int
  assumes "\<forall>x \<in> set xs. x = a \<or> x = b" and "a < b"
  shows "length (filter (\<lambda>x. x < b) xs) = count_list xs a"
  using assms by (induction xs) auto

lemma count_list_replicate:
  "count_list (replicate n x) y = (if x = y then n else 0)"
  by (induction n) auto

section \<open>Claims on the ensemble statistics\<close>

text \<open>
  C1. For a non-empty ensemble list of length N, the percentile is
  (number of values strictly below the enacted value + 0.5 * number of values equal
  to it) / N * 100, and no division by zero is raised; in particular, every ensemble of
  1000 values that holds 4 exactly 500 times and 3 exactly 500 times puts the enacted
  value 4 at percentile 75.
\<close>

theorem percentile_midpoint_rule:
  "(xs \<noteq> [] \<longrightarrow>
      percentile xs e =
        Inr ((real (length (filter (\<lambda>x. x < e) xs)) + 0.5 * real (count_list xs e))
               / real (length xs) * 100))
   \<and> (length xs = 1000 \<and> count_list xs 4 = 500 \<and> count_list xs 3 = 500 \<longrightarrow>
        percentile xs 4 = Inr 75)"
proof (intro conjI impI)
  assume ne: "xs \<noteq> []"
  then show "percentile xs e =
        Inr ((real (length (filter (\<lambda>x. x < e) xs)) + 0.5 * real (count_list xs e))
               / real (length xs) * 100)"
    by (simp add: percentile_def py_truediv_def below_initial_length equal_initial_count)
next
  assume h: "length xs = 1000 \<and> count_list xs 4 = 500 \<and> count_list xs 3 = 500"
  then have "length xs = count_list xs 3 + count_list xs 4" by simp
  then have "\<forall>x \<in> set xs. x = 3 \<or> x = 4"
    by (rule only_two_values) simp
  then have "length (filter (\<lambda>x. x < 4) xs) = count_list xs 3"
    by (rule below_is_lower_value) simp
  with h show "percentile xs 4 = Inr 75"
    by (simp add: percentile_def py_truediv_def below_initial_length equal_initial_count)
qed

theorem percentile_midpoint_rule_witness:
  "[3, 4, 4, 5::int] \<noteq> [] \<and> percentile [3, 4, 4, 5] 4 = Inr 50
   \<and> length (replicate 500 (4::int) @ replicate 500 3) = 1000
   \<and> count_list (replicate 500 4 @ replicate 500 (3::int)) 4 = 500
   \<and> count_list (replicate 500 4 @ replicate 500 (3::int)) 3 = 500
   \<and> percentile (replicate 500 4 @ replicate 500 3) 4 = Inr 75"
proof -
  from percentile_midpoint_rule [of "[3, 4, 4, 5]" 4]
  have small: "percentile [3, 4, 4, 5] 4 = Inr 50"
    by simp
  have pre: "length (replicate 500 (4::int) @ replicate 500 3) = 1000
      \<and> count_list (replicate 500 4 @ replicate 500 (3::int)) 4 = 500
      \<and> count_list (replicate 500 4 @ replicate 500 (3::int)) 3 = 500"
    by (simp add: count_list_replicate)
  from percentile_midpoint_rule [of "replicate 500 4 @ replicate 500 3" 4] pre
  have "percentile (replicate 500 4 @ replicate 500 3) 4 = Inr 75"
    by blast
  with pre small show ?thesis by simp
qed

section \<open>Statistics lemmas\<close>

lemma np_std_nonneg: "0 \<le> np_std xs"
proof -
  have "0 \<le> sum_list (map (\<lambda>x. \<bar>x - np_mean xs\<bar> ^ 2) xs)"
    by (rule sum_list_nonneg) auto
  then show ?thesis
    by (simp add: np_std_def np_mean_def [of "map f xs" for f])
qed

text \<open>
  C3, as stated, at \<^verbatim>\<open>single_state_detection_v2.py\<close>: with the threshold the script
  ships (10), percentile 7 is flagged, although it is neither below 5 nor above 95.
\<close>

theorem outlier_threshold_v2_counterexample:
  "\<not> (percentile_outlier OUTLIER_THRESHOLD 7 \<longleftrightarrow> ((7::real) < 5 \<or> (7::real) > 100 - 5))"
  by (simp add: percentile_outlier_def OUTLIER_THRESHOLD_def)

text \<open>
  C3, amended. The flag is true exactly when the percentile is strictly below the
  threshold or strictly above 100 minus the threshold; the threshold is the constant
  \<^verbatim>\<open>OUTLIER_THRESHOLD\<close> (shipped as 10) in \<^verbatim>\<open>single_state_detection_v2.py\<close> and the
  literal 5 in \<^verbatim>\<open>single_state_detection.py\<close> and \<^verbatim>\<open>multi_state_detection.py\<close>.
\<close>

theorem outlier_flag_thresholds:
  "(percentile_outlier t p \<longleftrightarrow> p < t \<or> p > 100 - t)
   \<and> OUTLIER_THRESHOLD = 10
   \<and> (is_outlier p \<longleftrightarrow> p < 5 \<or> p > 100 - 5)"
  by (simp add: percentile_outlier_def OUTLIER_THRESHOLD_def is_outlier_def)

text \<open>
  C5. With mean m and standard deviation s of the ensemble and enacted value e, the
  z-score is (e - m) / s when s > 0 and 0 when s = 0; \<^verbatim>\<open>analyze_state\<close> takes m and s
  from \<^verbatim>\<open>np.mean\<close> and \<^verbatim>\<open>np.std\<close>, and the latter is never negative, so the two
  cases are all there are.
\<close>

theorem z_score_cases:
  "(0 < s \<longrightarrow> z_score e m s = (real_of_int e - m) / s)
   \<and> (s = 0 \<longrightarrow> z_score e m s = 0)
   \<and> ensemble_z_score xs e
       = z_score e (np_mean (map real_of_int xs)) (np_std (map real_of_int xs))
   \<and> 0 \<le> np_std (map real_of_int xs)"
  by (simp add: z_score_def ensemble_z_score_def np_std_nonneg)

theorem z_score_cases_witness:
  "np_std (map real_of_int [3, 5]) = 1 \<and> ensemble_z_score [3, 5] 5 = 1
   \<and> np_std (map real_of_int [4, 4]) = 0 \<and> ensemble_z_score [4, 4] 4 = 0"
proof -
  have s1: "np_std (map real_of_int [3, 5]) = 1"
    by (simp add: np_std_def np_mean_def)
  have m1: "np_mean (map real_of_int [3, 5]) = 4"
    by (simp add: np_mean_def)
  have s2: "np_std (map real_of_int [4, 4]) = 0"
    by (simp add: np_std_def np_mean_def)
  from z_score_cases [of 1 5 4 "[3, 5]"] s1 m1
  have "ensemble_z_score [3, 5] 5 = 1" by simp
  moreover from z_score_cases [of 0 4 "np_mean (map real_of_int [4, 4])" "[4, 4]"] s2
  have "ensemble_z_score [4, 4] 4 = 0" by simp
  ultimately show ?thesis using s1 s2 by simp
qed

section \<open>Graph lemmas\<close>

lemma edge_endpoints_not_isolated:
  assumes "e \<in> set (edges g)"
  shows "degree g (fst e) \<noteq> 0" and "degree g (snd e) \<noteq> 0"
proof -
  from assms have "filter (\<lambda>x. fst x = fst e) (edges g) \<noteq> []"
    by (auto simp: filter_empty_conv)
  then show "degree g (fst e) \<noteq> 0" by (simp add: degree_def)
  from assms have "filter (\<lambda>x. snd x = snd e) (edges g) \<noteq> []"
    by (auto simp: filter_empty_conv)
  then show "degree g (snd e) \<noteq> 0" by (simp add: degree_def)
qed

lemma edges_remove_isolated_nodes: "edges (remove_isolated_nodes g) = edges g"
proof -
  have "filter (\<lambda>e. fst e \<notin> set (filter (\<lambda>n. degree g n = 0) (nodes g))
                   \<and> snd e \<notin> set (filter (\<lambda>n. degree g n = 0) (nodes g))) (edges g) = edges g"
    using edge_endpoints_not_isolated [of _ g] by (auto simp: filter_id_conv)
  then show ?thesis
    by (simp add: remove_isolated_nodes_def remove_nodes_from_def Let_def)
qed

lemma nodes_remove_isolated_nodes:
  "nodes (remove_isolated_nodes g) = filter (\<lambda>n. degree g n \<noteq> 0) (nodes g)"
proof -
  have "filter (\<lambda>n. n \<notin> set (filter (\<lambda>n. degree g n = 0) (nodes g))) (nodes g)
        = filter (\<lambda>n. degree g n \<noteq> 0) (nodes g)"
    by (rule filter_cong) auto
  moreover have "filter (\<lambda>n. degree g n = 0) (nodes g) = [] \<Longrightarrow>
        filter (\<lambda>n. degree g n \<noteq> 0) (nodes g) = nodes g"
    by (auto simp: filter_empty_conv filter_id_conv)
  ultimately show ?thesis
    by (simp add: remove_isolated_nodes_def remove_nodes_from_def Let_def)
qed

lemma degree_remove_isolated_nodes: "degree (remove_isolated_nodes g) n = degree g n"
  by (simp add: degree_def edges_remove_isolated_nodes)

lemma remove_isolated_nodes_no_isolated:
  "n \<in> set (nodes (remove_isolated_nodes g)) \<Longrightarrow> degree (remove_isolated_nodes g) n \<noteq> 0"
  by (simp add: degree_remove_isolated_nodes nodes_remove_isolated_nodes)

text \<open>
  C8. The graph a loader returns is the input without its nodes of degree zero, all
  edges kept, so no node of it has zero neighbours; this holds for \<^verbatim>\<open>load_state_data\<close>,
  for the graph \<^verbatim>\<open>analyze_state\<close> passes on to the partition constructor, and for
  \<^verbatim>\<open>load_real_data\<close>.
\<close>

theorem loaders_return_no_isolated_node:
  "(load_state_data (Some g0) = Some (remove_isolated_nodes g0))
   \<and> nodes (remove_isolated_nodes g0) = filter (\<lambda>n. degree g0 n \<noteq> 0) (nodes g0)
   \<and> edges (remove_isolated_nodes g0) = edges g0
   \<and> (load_state_data r = Some g \<longrightarrow> (\<forall>n \<in> set (nodes g). degree g n \<noteq> 0))
   \<and> (graph_for_partition r = Some g \<longrightarrow> (\<forall>n \<in> set (nodes g). degree g n \<noteq> 0))
   \<and> (load_real_data r = Inr g \<longrightarrow> (\<forall>n \<in> set (nodes g). degree g n \<noteq> 0))"
proof (intro conjI impI)
  show "load_state_data (Some g0) = Some (remove_isolated_nodes g0)"
    by (simp add: load_state_data_def)
  show "nodes (remove_isolated_nodes g0) = filter (\<lambda>n. degree g0 n \<noteq> 0) (nodes g0)"
    by (rule nodes_remove_isolated_nodes)
  show "edges (remove_isolated_nodes g0) = edges g0"
    by (rule edges_remove_isolated_nodes)
next
  assume "load_state_data r = Some g"
  then obtain g1 where "g = remove_isolated_nodes g1"
    by (auto simp: load_state_data_def split: option.splits)
  then show "\<forall>n \<in> set (nodes g). degree g n \<noteq> 0"
    by (simp add: remove_isolated_nodes_no_isolated)
next
  assume "graph_for_partition r = Some g"
  then obtain g1 where "g = remove_isolated_nodes g1"
    by (auto simp: graph_for_partition_def load_state_data_def split: option.splits if_splits)
  then show "\<forall>n \<in> set (nodes g). degree g n \<noteq> 0"
    by (simp add: remove_isolated_nodes_no_isolated)
next
  assume "load_real_data r = Inr g"
  then obtain g1 where "g = remove_isolated_nodes g1"
    by (auto simp: load_real_data_def Let_def split: option.splits if_splits)
  then show "\<forall>n \<in> set (nodes g). degree g n \<noteq> 0"
    by (simp add: remove_isolated_nodes_no_isolated)
qed

theorem loaders_return_no_isolated_node_witness:
  "load_state_data (Some \<lparr> nodes = [1, 2, 3::int], edges = [(1, 2)] \<rparr>)
     = Some \<lparr> nodes = [1, 2], edges = [(1, 2)] \<rparr>
   \<and> graph_for_partition (Some \<lparr> nodes = [1, 2, 3::int], edges = [(1, 2)] \<rparr>)
     = Some \<lparr> nodes = [1, 2], edges = [(1, 2)] \<rparr>
   \<and> load_real_data (Some \<lparr> nodes = [1, 2, 3::int], edges = [(1, 2)] \<rparr>)
     = Inr \<lparr> nodes = [1, 2], edges = [(1, 2)] \<rparr>
   \<and> degree \<lparr> nodes = [1, 2, 3::int], edges = [(1, 2)] \<rparr> 3 = 0
   \<and> degree \<lparr> nodes = [1, 2::int], edges = [(1, 2)] \<rparr> 1 \<noteq> 0
   \<and> degree \<lparr> nodes = [1, 2::int], edges = [(1, 2)] \<rparr> 2 \<noteq> 0"
proof -
  let ?a = "\<lparr> nodes = [1, 2, 3::int], edges = [(1, 2)] \<rparr>"
  let ?g = "\<lparr> nodes = [1, 2::int], edges = [(1, 2)] \<rparr>"
  have r: "remove_isolated_nodes ?a = ?g"
    by (simp add: remove_isolated_nodes_def remove_nodes_from_def degree_def Let_def)
  have a: "load_state_data (Some ?a) = Some ?g"
    by (simp add: load_state_data_def r)
  have b: "graph_for_partition (Some ?a) = Some ?g"
    by (simp add: graph_for_partition_def a)
  have c: "load_real_data (Some ?a) = Inr ?g"
    by (simp add: load_real_data_def r)
  from loaders_return_no_isolated_node [of ?a "Some ?a" ?g] a b c
  have "\<forall>n \<in> set (nodes ?g). degree ?g n \<noteq> 0" by blast
  then have "degree ?g 1 \<noteq> 0 \<and> degree ?g 2 \<noteq> 0" by simp
  moreover have "degree ?a 3 = 0" by (simp add: degree_def)
  ultimately show ?thesis using a b c by simp
qed

section \<open>District statistics lemmas\<close>

lemma py_for_map:
  "(\<And>x. x \<in> set xs \<Longrightarrow> f x = Inr (g x)) \<Longrightarrow> py_for f xs = Inr (map g xs)"
  by (induction xs) (simp_all add: py_bind_def)

lemma district_statistics_value:
  "district_statistics p d =
     Inr \<lparr> district = d,
           dem_votes = tally_dem_votes p d,
           rep_votes = tally_rep_votes p d,
           total_votes = tally_dem_votes p d + tally_rep_votes p d,
           dem_pct = (if tally_dem_votes p d + tally_rep_votes p d > 0
                      then tally_dem_votes p d / (tally_dem_votes p d + tally_rep_votes p d) * 100
                      else 0),
           rep_pct = (if tally_dem_votes p d + tally_rep_votes p d > 0
                      then tally_rep_votes p d / (tally_dem_votes p d + tally_rep_votes p d) * 100
                      else 0),
           winner = (if tally_dem_votes p d > tally_rep_votes p d then ''DEM'' else ''REP''),
           margin = \<bar>tally_dem_votes p d - tally_rep_votes p d\<bar>,
           margin_pct = (if tally_dem_votes p d + tally_rep_votes p d > 0
                      then \<bar>tally_dem_votes p d - tally_rep_votes p d\<bar>
                             / (tally_dem_votes p d + tally_rep_votes p d) * 100
                      else 0),
           population = tally_population p d \<rparr>"
  by (simp add: district_statistics_def py_bind_def py_truediv_def Let_def)

lemma district_statistics_fields:
  assumes "district_statistics p d = Inr s"
  shows "district s = d"
    and "dem_votes s = tally_dem_votes p d"
    and "rep_votes s = tally_rep_votes p d"
    and "total_votes s = tally_dem_votes p d + tally_rep_votes p d"
    and "winner s = (if tally_dem_votes p d > tally_rep_votes p d then ''DEM'' else ''REP'')"
    and "dem_pct s = (if total_votes s > 0 then dem_votes s / total_votes s * 100 else 0)"
    and "rep_pct s = (if total_votes s > 0 then rep_votes s / total_votes s * 100 else 0)"
    and "margin_pct s = (if total_votes s > 0 then \<bar>dem_votes s - rep_votes s\<bar> / total_votes s * 100 else 0)"
  using assms unfolding district_statistics_value by auto

lemma get_district_statistics_value:
  "get_district_statistics p = Inr (map (\<lambda>d. projr (district_statistics p d)) (sort (parts_keys p)))"
  unfolding get_district_statistics_def
  by (rule py_for_map) (simp add: district_statistics_value)

lemma get_district_statistics_elem:
  assumes "get_district_statistics p = Inr stats" and "s \<in> set stats"
  shows "\<exists>d \<in> set (parts_keys p). district_statistics p d = Inr s"
proof -
  from assms obtain d where "d \<in> set (parts_keys p)" and "s = projr (district_statistics p d)"
    unfolding get_district_statistics_value by auto
  then show ?thesis
    by (auto simp: district_statistics_value)
qed

lemma get_district_statistics_districts:
  assumes "get_district_statistics p = Inr stats"
  shows "map district stats = sort (parts_keys p)"
proof -
  have "map district (map (\<lambda>d. projr (district_statistics p d)) ks) = ks" for ks
    by (induction ks) (simp_all add: district_statistics_value)
  with assms show ?thesis
    unfolding get_district_statistics_value by auto
qed

lemma dem_wins_length:
  "dem_wins p = int (length (filter (\<lambda>d. tally_dem_votes p d > tally_rep_votes p d) (parts_keys p)))"
  by (simp add: dem_wins_def sum_list_ones)

lemma fair_districts_loop_value:
  "fair_districts_loop p (n, printed) ks =
     (n + int (length (filter (\<lambda>d. tally_dem_votes p d > tally_rep_votes p d) ks)),
      printed @ map (\<lambda>d. if tally_dem_votes p d > tally_rep_votes p d then ''DEM'' else ''REP'') ks)"
  by (induction ks arbitrary: n printed) (simp_all add: Let_def)

section \<open>Averages\<close>

lemma average_statistics_value:
  "\<exists>s. average_statistics ps d = Inr s
       \<and> district s = d
       \<and> total_votes s = dem_votes s + rep_votes s
       \<and> dem_votes s = np_mean (collected tally_dem_votes ps d)
       \<and> rep_votes s = np_mean (collected tally_rep_votes ps d)
       \<and> dem_pct s = (if total_votes s > 0 then dem_votes s / total_votes s * 100 else 0)
       \<and> rep_pct s = (if total_votes s > 0 then rep_votes s / total_votes s * 100 else 0)
       \<and> margin_pct s = (if total_votes s > 0 then \<bar>dem_votes s - rep_votes s\<bar> / total_votes s * 100 else 0)
       \<and> winner s = (if dem_votes s > rep_votes s then ''DEM'' else ''REP'')"
  by (simp add: average_statistics_def py_bind_def py_truediv_def Let_def)

lemma py_for_total:
  assumes "\<And>x. x \<in> set xs \<Longrightarrow> \<exists>y. f x = Inr y \<and> P x y"
  shows "\<exists>ys. py_for f xs = Inr ys \<and> list_all2 P xs ys"
  using assms
proof (induction xs)
  case Nil
  then show ?case by simp
next
  case (Cons x xs)
  from Cons.prems obtain y where y: "f x = Inr y" "P x y" by auto
  from Cons obtain ys where ys: "py_for f xs = Inr ys" "list_all2 P xs ys" by auto
  have "py_for f (x # xs) = Inr (y # ys)"
    using y ys by (simp add: py_bind_def)
  with y ys show ?case by auto
qed

lemma collected_nonempty:
  assumes "d \<in> set (parts_keys first)"
  shows "collected t (first # rest) d \<noteq> []"
  using assms by (auto simp: collected_def filter_empty_conv)

section \<open>Claims on the district statistics\<close>

text \<open>
  C7. For the statistics of an enacted partition, the packing flag is true if and only
  if some district has a positive two-party vote of which its winning party (the party
  with the strictly larger tally, the Republican one on a tie) holds strictly more than
  65 percent, the share written into \<^verbatim>\<open>analyze_state\<close>.
\<close>

theorem packing_flag_iff:
  "get_district_statistics p = Inr stats \<longrightarrow>
     (has_packing stats \<longleftrightarrow>
        (\<exists>d \<in> set (parts_keys p).
            tally_dem_votes p d + tally_rep_votes p d > 0
          \<and> (if tally_dem_votes p d > tally_rep_votes p d
              then tally_dem_votes p d else tally_rep_votes p d)
               / (tally_dem_votes p d + tally_rep_votes p d) * 100 > 65))"
proof
  assume g: "get_district_statistics p = Inr stats"
  let ?share = "\<lambda>d. tally_dem_votes p d + tally_rep_votes p d > 0
          \<and> (if tally_dem_votes p d > tally_rep_votes p d
              then tally_dem_votes p d else tally_rep_votes p d)
               / (tally_dem_votes p d + tally_rep_votes p d) * 100 > 65"
  let ?flag = "\<lambda>s. (dem_pct s > 65 \<and> winner s = ''DEM'') \<or> (rep_pct s > 65 \<and> winner s = ''REP'')"
  have one: "?flag s \<longleftrightarrow> ?share d" if "district_statistics p d = Inr s" for s d
    using district_statistics_fields [OF that] by (auto split: if_splits)
  have "has_packing stats \<longleftrightarrow> (\<exists>s \<in> set stats. ?flag s)"
    by (auto simp: has_packing_def dem_packing_def rep_packing_def list_ex_iff)
  also have "\<dots> \<longleftrightarrow> (\<exists>d \<in> set (parts_keys p). ?share d)"
  proof
    assume "\<exists>s \<in> set stats. ?flag s"
    then obtain s where s: "s \<in> set stats" "?flag s" by blast
    from get_district_statistics_elem [OF g s(1)]
    obtain d where d: "d \<in> set (parts_keys p)" "district_statistics p d = Inr s" by blast
    from one [OF d(2)] s(2) have "?share d" by blast
    with d(1) show "\<exists>d \<in> set (parts_keys p). ?share d" by blast
  next
    assume "\<exists>d \<in> set (parts_keys p). ?share d"
    then obtain d where d: "d \<in> set (parts_keys p)" "?share d" by blast
    obtain s where s: "district_statistics p d = Inr s"
      by (simp add: district_statistics_value)
    then have "s = projr (district_statistics p d)" by simp
    with d(1) g have "s \<in> set stats"
      unfolding get_district_statistics_value by auto
    moreover from one [OF s] d(2) have "?flag s" by blast
    ultimately show "\<exists>s \<in> set stats. ?flag s" by blast
  qed
  finally show "has_packing stats \<longleftrightarrow> (\<exists>d \<in> set (parts_keys p). ?share d)" .
qed

text \<open>
  C9. A district is labelled \<^verbatim>\<open>DEM\<close> exactly when its Democratic tally strictly
  exceeds its Republican tally and \<^verbatim>\<open>REP\<close> otherwise, so a tie is a Republican win;
  the seat tally \<^verbatim>\<open>dem_wins\<close> is the number of districts with a strictly larger
  Democratic tally, a tied district adds nothing to it, it equals the number of
  \<^verbatim>\<open>DEM\<close> labels of \<^verbatim>\<open>get_district_statistics\<close>, and the loop of
  \<^verbatim>\<open>create_fair_districts\<close> counts and labels the same way.
\<close>

theorem winner_is_strict_comparison:
  "(district_statistics p d = Inr s \<longrightarrow>
       (winner s = ''DEM'' \<longleftrightarrow> tally_dem_votes p d > tally_rep_votes p d)
     \<and> (winner s = ''REP'' \<longleftrightarrow> \<not> tally_dem_votes p d > tally_rep_votes p d)
     \<and> (tally_dem_votes p d = tally_rep_votes p d \<longrightarrow> winner s = ''REP''))
   \<and> dem_wins p
       = int (length (filter (\<lambda>d. tally_dem_votes p d > tally_rep_votes p d) (parts_keys p)))
   \<and> (tally_dem_votes p d = tally_rep_votes p d \<longrightarrow>
        dem_wins (p\<lparr>parts_keys := d # ks\<rparr>) = dem_wins (p\<lparr>parts_keys := ks\<rparr>))
   \<and> (get_district_statistics p = Inr stats \<longrightarrow>
        int (length (filter (\<lambda>s. winner s = ''DEM'') stats)) = dem_wins p)
   \<and> create_fair_districts_report p
       = (dem_wins p,
          map (\<lambda>d. if tally_dem_votes p d > tally_rep_votes p d then ''DEM'' else ''REP'')
            (parts_keys p))"
proof (intro conjI impI)
  assume "district_statistics p d = Inr s"
  note f = district_statistics_fields [OF this]
  show "winner s = ''DEM'' \<longleftrightarrow> tally_dem_votes p d > tally_rep_votes p d"
    by (simp add: f)
  show "winner s = ''REP'' \<longleftrightarrow> \<not> tally_dem_votes p d > tally_rep_votes p d"
    by (simp add: f)
  show "winner s = ''REP''" if "tally_dem_votes p d = tally_rep_votes p d"
    using that by (simp add: f)
next
  show "dem_wins p
       = int (length (filter (\<lambda>d. tally_dem_votes p d > tally_rep_votes p d) (parts_keys p)))"
    by (rule dem_wins_length)
next
  assume "tally_dem_votes p d = tally_rep_votes p d"
  then show "dem_wins (p\<lparr>parts_keys := d # ks\<rparr>) = dem_wins (p\<lparr>parts_keys := ks\<rparr>)"
    by (simp add: dem_wins_def)
next
  assume g: "get_district_statistics p = Inr stats"
  let ?w = "\<lambda>d. tally_dem_votes p d > tally_rep_votes p d"
  have "filter (\<lambda>s. winner s = ''DEM'') (map (\<lambda>d. projr (district_statistics p d)) ks)
        = map (\<lambda>d. projr (district_statistics p d)) (filter ?w ks)" for ks
    by (induction ks) (simp_all add: district_statistics_value)
  with g have "length (filter (\<lambda>s. winner s = ''DEM'') stats)
        = length (filter ?w (sort (parts_keys p)))"
    unfolding get_district_statistics_value by auto
  also have "\<dots> = length (filter ?w (parts_keys p))"
    by (simp add: filter_sort)
  finally show "int (length (filter (\<lambda>s. winner s = ''DEM'') stats)) = dem_wins p"
    by (simp add: dem_wins_length)
next
  show "create_fair_districts_report p
       = (dem_wins p,
          map (\<lambda>d. if tally_dem_votes p d > tally_rep_votes p d then ''DEM'' else ''REP'')
            (parts_keys p))"
    by (simp add: create_fair_districts_report_def fair_districts_loop_value dem_wins_length)
qed

text \<open>
  C10. \<^verbatim>\<open>get_district_statistics\<close> and \<^verbatim>\<open>calculate_ensemble_average_map\<close> return
  for every input, never raising a division by zero; each district of the partition
  (of the first sample, for the averages) has one entry, and an entry whose two-party
  total is zero has Democratic, Republican and margin percentage 0.
\<close>

theorem percentages_total_on_zero_votes:
  "(\<exists>stats. get_district_statistics p = Inr stats
       \<and> map district stats = sort (parts_keys p)
       \<and> (\<forall>s \<in> set stats.
             total_votes s = tally_dem_votes p (district s) + tally_rep_votes p (district s)
           \<and> (total_votes s = 0 \<longrightarrow> dem_pct s = 0 \<and> rep_pct s = 0 \<and> margin_pct s = 0)))
   \<and> (\<exists>r. calculate_ensemble_average_map samples = Inr r
       \<and> (r = None \<longleftrightarrow> samples = [])
       \<and> (\<forall>stats. r = Some stats \<longrightarrow>
            (\<forall>first rest. samples = first # rest \<longrightarrow>
                map district stats = sort (remdups (parts_keys first)))
          \<and> (\<forall>s \<in> set stats.
                total_votes s = np_mean (collected tally_dem_votes samples (district s))
                                + np_mean (collected tally_rep_votes samples (district s))
              \<and> (total_votes s = 0 \<longrightarrow> dem_pct s = 0 \<and> rep_pct s = 0 \<and> margin_pct s = 0))))"
proof
  let ?stats = "map (\<lambda>d. projr (district_statistics p d)) (sort (parts_keys p))"
  have g: "get_district_statistics p = Inr ?stats"
    by (rule get_district_statistics_value)
  have "total_votes s = tally_dem_votes p (district s) + tally_rep_votes p (district s)
           \<and> (total_votes s = 0 \<longrightarrow> dem_pct s = 0 \<and> rep_pct s = 0 \<and> margin_pct s = 0)"
    if "s \<in> set ?stats" for s
  proof -
    from get_district_statistics_elem [OF g that]
    obtain d where "district_statistics p d = Inr s" by blast
    from district_statistics_fields [OF this] show ?thesis by simp
  qed
  with g get_district_statistics_districts [OF g]
  show "\<exists>stats. get_district_statistics p = Inr stats
       \<and> map district stats = sort (parts_keys p)
       \<and> (\<forall>s \<in> set stats.
             total_votes s = tally_dem_votes p (district s) + tally_rep_votes p (district s)
           \<and> (total_votes s = 0 \<longrightarrow> dem_pct s = 0 \<and> rep_pct s = 0 \<and> margin_pct s = 0))"
    by blast
next
  let ?P = "\<lambda>d s. district s = d
       \<and> total_votes s = dem_votes s + rep_votes s
       \<and> dem_votes s = np_mean (collected tally_dem_votes samples d)
       \<and> rep_votes s = np_mean (collected tally_rep_votes samples d)
       \<and> dem_pct s = (if total_votes s > 0 then dem_votes s / total_votes s * 100 else 0)
       \<and> rep_pct s = (if total_votes s > 0 then rep_votes s / total_votes s * 100 else 0)
       \<and> margin_pct s = (if total_votes s > 0 then \<bar>dem_votes s - rep_votes s\<bar> / total_votes s * 100 else 0)
       \<and> winner s = (if dem_votes s > rep_votes s then ''DEM'' else ''REP'')"
  show "\<exists>r. calculate_ensemble_average_map samples = Inr r
       \<and> (r = None \<longleftrightarrow> samples = [])
       \<and> (\<forall>stats. r = Some stats \<longrightarrow>
            (\<forall>first rest. samples = first # rest \<longrightarrow>
                map district stats = sort (remdups (parts_keys first)))
          \<and> (\<forall>s \<in> set stats.
                total_votes s = np_mean (collected tally_dem_votes samples (district s))
                                + np_mean (collected tally_rep_votes samples (district s))
              \<and> (total_votes s = 0 \<longrightarrow> dem_pct s = 0 \<and> rep_pct s = 0 \<and> margin_pct s = 0)))"
  proof (cases samples)
    case Nil
    then show ?thesis by (simp add: calculate_ensemble_average_map_def)
  next
    case (Cons first rest)
    let ?ks = "sort (remdups (parts_keys first))"
    have "\<exists>ys. py_for (average_statistics samples) ?ks = Inr ys \<and> list_all2 ?P ?ks ys"
      by (rule py_for_total) (rule average_statistics_value)
    then obtain ys where ys: "py_for (average_statistics samples) ?ks = Inr ys"
      and all2: "list_all2 ?P ?ks ys" by blast
    have r: "calculate_ensemble_average_map samples = Inr (Some ys)"
      using Cons ys by (simp add: calculate_ensemble_average_map_def py_bind_def)
    have "list_all2 (\<lambda>d s. district s = d) ?ks ys"
      by (rule list_all2_mono [OF all2]) simp
    then have ds: "map district ys = ?ks"
      by (induction rule: list_all2_induct) simp_all
    have "total_votes s = np_mean (collected tally_dem_votes samples (district s))
                                + np_mean (collected tally_rep_votes samples (district s))
              \<and> (total_votes s = 0 \<longrightarrow> dem_pct s = 0 \<and> rep_pct s = 0 \<and> margin_pct s = 0)"
      if "s \<in> set ys" for s
    proof -
      from all2 that obtain x where "?P x s"
        by (auto simp: list_all2_conv_all_nth in_set_conv_nth)
      then show ?thesis by simp
    qed
    with r ds Cons show ?thesis by auto
  qed
qed

section \<open>Witnesses\<close>

theorem packing_flag_iff_witness:
  "\<exists>stats. get_district_statistics
       \<lparr> parts_keys = [2, 1::int],
         tally_dem_votes = (\<lambda>d. if d = 1 then 70 else 40),
         tally_rep_votes = (\<lambda>d. if d = 1 then 30 else 60),
         tally_population = (\<lambda>d. 100) \<rparr> = Inr stats
     \<and> has_packing stats"
proof -
  let ?p = "\<lparr> parts_keys = [2, 1::int],
         tally_dem_votes = (\<lambda>d. if d = 1 then 70 else 40),
         tally_rep_votes = (\<lambda>d. if d = 1 then 30 else 60),
         tally_population = (\<lambda>d. 100) \<rparr>"
  obtain stats where g: "get_district_statistics ?p = Inr stats"
    by (simp add: get_district_statistics_value)
  have "\<exists>d \<in> set (parts_keys ?p).
            tally_dem_votes ?p d + tally_rep_votes ?p d > 0
          \<and> (if tally_dem_votes ?p d > tally_rep_votes ?p d
              then tally_dem_votes ?p d else tally_rep_votes ?p d)
               / (tally_dem_votes ?p d + tally_rep_votes ?p d) * 100 > 65"
    by simp
  with packing_flag_iff [of ?p stats] g have "has_packing stats" by blast
  with g show ?thesis by blast
qed

theorem winner_is_strict_comparison_witness:
  "(\<exists>s. district_statistics
       \<lparr> parts_keys = [1, 2, 3::int],
         tally_dem_votes = (\<lambda>d. if d = 3 then 2 else 5),
         tally_rep_votes = (\<lambda>d. if d = 1 then 3 else if d = 2 then 5 else 4),
         tally_population = (\<lambda>d. 10) \<rparr> 2 = Inr s \<and> winner s = ''REP'')
   \<and> dem_wins
       \<lparr> parts_keys = [1, 2, 3::int],
         tally_dem_votes = (\<lambda>d. if d = 3 then 2 else 5),
         tally_rep_votes = (\<lambda>d. if d = 1 then 3 else if d = 2 then 5 else 4),
         tally_population = (\<lambda>d. 10) \<rparr> = 1
   \<and> dem_wins
       \<lparr> parts_keys = [2, 1::int],
         tally_dem_votes = (\<lambda>d. if d = 3 then 2 else 5),
         tally_rep_votes = (\<lambda>d. if d = 1 then 3 else if d = 2 then 5 else 4),
         tally_population = (\<lambda>d. 10) \<rparr>
     = dem_wins
       \<lparr> parts_keys = [1::int],
         tally_dem_votes = (\<lambda>d. if d = 3 then 2 else 5),
         tally_rep_votes = (\<lambda>d. if d = 1 then 3 else if d = 2 then 5 else 4),
         tally_population = (\<lambda>d. 10) \<rparr>
   \<and> (\<exists>stats. get_district_statistics
       \<lparr> parts_keys = [1, 2, 3::int],
         tally_dem_votes = (\<lambda>d. if d = 3 then 2 else 5),
         tally_rep_votes = (\<lambda>d. if d = 1 then 3 else if d = 2 then 5 else 4),
         tally_population = (\<lambda>d. 10) \<rparr> = Inr stats
        \<and> length (filter (\<lambda>s. winner s = ''DEM'') stats) = 1)"
proof -
  let ?p = "\<lparr> parts_keys = [1, 2, 3::int],
         tally_dem_votes = (\<lambda>d. if d = 3 then 2 else 5),
         tally_rep_votes = (\<lambda>d. if d = 1 then 3 else if d = 2 then 5 else 4),
         tally_population = (\<lambda>d. 10) \<rparr>"
  obtain s where s: "district_statistics ?p 2 = Inr s"
    by (simp add: district_statistics_value)
  obtain stats where g: "get_district_statistics ?p = Inr stats"
    by (simp add: get_district_statistics_value)
  have tie: "tally_dem_votes ?p 2 = tally_rep_votes ?p 2" by simp
  note t = winner_is_strict_comparison [of ?p 2 s "[1]" stats]
  from t s tie have a: "winner s = ''REP''" by blast
  from t have "dem_wins ?p
       = int (length (filter (\<lambda>d. tally_dem_votes ?p d > tally_rep_votes ?p d) (parts_keys ?p)))"
    by blast
  then have b: "dem_wins ?p = 1" by simp
  from t tie have c: "dem_wins (?p\<lparr>parts_keys := [2, 1]\<rparr>) = dem_wins (?p\<lparr>parts_keys := [1]\<rparr>)"
    by blast
  from t g have "int (length (filter (\<lambda>s. winner s = ''DEM'') stats)) = dem_wins ?p" by blast
  with b have d: "length (filter (\<lambda>s. winner s = ''DEM'') stats) = 1" by simp
  from a b c d s g show ?thesis by auto
qed

theorem percentages_total_on_zero_votes_witness:
  "(\<exists>stats. get_district_statistics
       \<lparr> parts_keys = [2, 1::int],
         tally_dem_votes = (\<lambda>d. if d = 1 then 0 else 3),
         tally_rep_votes = (\<lambda>d. if d = 1 then 0 else 1),
         tally_population = (\<lambda>d. 10) \<rparr> = Inr stats
      \<and> (\<exists>s. s \<in> set stats \<and> district s = 1 \<and> total_votes s = 0
             \<and> dem_pct s = 0 \<and> rep_pct s = 0 \<and> margin_pct s = 0))
   \<and> (\<exists>stats. calculate_ensemble_average_map
       [\<lparr> parts_keys = [2, 1::int],
         tally_dem_votes = (\<lambda>d. if d = 1 then 0 else 3),
         tally_rep_votes = (\<lambda>d. if d = 1 then 0 else 1),
         tally_population = (\<lambda>d. 10) \<rparr>] = Inr (Some stats)
      \<and> (\<exists>s. s \<in> set stats \<and> district s = 1 \<and> total_votes s = 0
             \<and> dem_pct s = 0 \<and> rep_pct s = 0 \<and> margin_pct s = 0))"
proof -
  let ?p = "\<lparr> parts_keys = [2, 1::int],
         tally_dem_votes = (\<lambda>d. if d = 1 then 0 else 3),
         tally_rep_votes = (\<lambda>d. if d = 1 then 0 else 1),
         tally_population = (\<lambda>d. 10) \<rparr>"
  note t = percentages_total_on_zero_votes [of ?p "[?p]"]
  from t obtain stats where g: "get_district_statistics ?p = Inr stats"
    and ds: "map district stats = sort (parts_keys ?p)"
    and z: "\<forall>s \<in> set stats.
             total_votes s = tally_dem_votes ?p (district s) + tally_rep_votes ?p (district s)
           \<and> (total_votes s = 0 \<longrightarrow> dem_pct s = 0 \<and> rep_pct s = 0 \<and> margin_pct s = 0)"
    by blast
  from ds have "map district stats = [1, 2]" by simp
  then obtain s where s: "s \<in> set stats" "district s = 1"
    by (cases stats) auto
  with z have "total_votes s = 0" by simp
  with z s have first: "\<exists>s. s \<in> set stats \<and> district s = 1 \<and> total_votes s = 0
             \<and> dem_pct s = 0 \<and> rep_pct s = 0 \<and> margin_pct s = 0"
    by blast
  from t obtain r where r: "calculate_ensemble_average_map [?p] = Inr r" "r \<noteq> None"
    and rs: "\<forall>stats. r = Some stats \<longrightarrow>
            (\<forall>first rest. [?p] = first # rest \<longrightarrow>
                map district stats = sort (remdups (parts_keys first)))
          \<and> (\<forall>s \<in> set stats.
                total_votes s = np_mean (collected tally_dem_votes [?p] (district s))
                                + np_mean (collected tally_rep_votes [?p] (district s))
              \<and> (total_votes s = 0 \<longrightarrow> dem_pct s = 0 \<and> rep_pct s = 0 \<and> margin_pct s = 0))"
    by blast
  from r obtain avg where avg: "r = Some avg" by auto
  with rs have "map district avg = sort (remdups (parts_keys ?p))" by blast
  then have "map district avg = [1, 2]" by simp
  then obtain a where a: "a \<in> set avg" "district a = 1"
    by (cases avg) auto
  with rs avg have "total_votes a = np_mean (collected tally_dem_votes [?p] 1)
                                + np_mean (collected tally_rep_votes [?p] 1)"
    by auto
  then have "total_votes a = 0"
    by (simp add: collected_def np_mean_def)
  with rs avg a have second: "\<exists>s. s \<in> set avg \<and> district s = 1 \<and> total_votes s = 0
             \<and> dem_pct s = 0 \<and> rep_pct s = 0 \<and> margin_pct s = 0"
    by blast
  from g first r avg second show ?thesis by blast
qed

section \<open>Chain and loop lemmas\<close>

lemma length_chain_states: "length (chain_states lib chain n st) = n"
  by (induction n arbitrary: st) (simp_all add: Let_def)

lemma length_run_chain: "length (run_chain lib chain rng) = nat (total_steps chain)"
  by (simp add: run_chain_def length_chain_states)

lemma multi_state_loop_value: "multi_state_loop acc ps = acc @ map dem_wins ps"
  by (induction ps arbitrary: acc) simp_all

lemma single_state_loop_raises:
  "num_steps div 10 = 0 \<Longrightarrow> ps \<noteq> [] \<Longrightarrow>
     single_state_loop num_steps i out acc ps = (out, Inl ZeroDivisionError)"
  by (cases ps) (simp_all add: py_mod_def)

lemma single_state_loop_value:
  "num_steps div 10 \<noteq> 0 \<Longrightarrow>
     snd (single_state_loop num_steps i out acc ps) = Inr (acc @ map dem_wins ps)"
  by (induction ps arbitrary: i out acc) (simp_all add: py_mod_def)

lemma single_state_loop_output:
  "\<exists>more. fst (single_state_loop num_steps i out acc ps) = out @ more"
proof (induction ps arbitrary: i out acc)
  case Nil
  then show ?case by simp
next
  case (Cons p ps)
  show ?case
  proof (cases "num_steps div 10 = 0")
    case True
    then show ?thesis by (simp add: py_mod_def)
  next
    case False
    let ?out = "if (i + 1) mod (num_steps div 10) = 0
                then out @ [Progress ((i + 1) * 100 div num_steps)] else out"
    from Cons.IH [of "i + 1" ?out "acc @ [dem_wins p]"]
    obtain more where "fst (single_state_loop num_steps (i + 1) ?out (acc @ [dem_wins p]) ps)
        = ?out @ more" by blast
    with False show ?thesis by (auto simp: py_mod_def)
  qed
qed

lemma run_ensemble_multi_state_length:
  "\<exists>xs. run_ensemble_multi_state lib rng initial_partition num_steps = Some xs
        \<and> length xs = nat num_steps"
  by (simp add: run_ensemble_multi_state_def multi_state_loop_value length_run_chain)

lemma total_steps_single_state_chain:
  "total_steps (snd (single_state_chain lib initial_partition num_steps use_contiguity)) = num_steps"
  by (simp add: single_state_chain_def Let_def)

lemma run_ensemble_single_state_length:
  assumes "10 \<le> num_steps"
  shows "\<exists>xs. snd (run_ensemble_single_state lib rng initial_partition num_steps use_contiguity) = Some xs
        \<and> length xs = nat num_steps"
proof -
  obtain out chain where c: "single_state_chain lib initial_partition num_steps use_contiguity = (out, chain)"
    by (cases "single_state_chain lib initial_partition num_steps use_contiguity")
  then have ts: "total_steps chain = num_steps"
    using total_steps_single_state_chain [of lib initial_partition num_steps use_contiguity] by simp
  from assms have nz: "num_steps div 10 \<noteq> 0" by presburger
  obtain out' r where l: "single_state_loop num_steps 0 out [] (run_chain lib chain rng) = (out', r)"
    by (cases "single_state_loop num_steps 0 out [] (run_chain lib chain rng)")
  with single_state_loop_value [OF nz, of 0 out "[]" "run_chain lib chain rng"]
  have "r = Inr (map dem_wins (run_chain lib chain rng))" by simp
  with c l ts show ?thesis
    by (simp add: run_ensemble_single_state_def length_run_chain)
qed

lemma run_ensemble_single_state_small:
  assumes "1 \<le> num_steps" and "num_steps < 10"
  shows "snd (run_ensemble_single_state lib rng initial_partition num_steps use_contiguity) = None"
    and "ErrorRunningEnsemble ZeroDivisionError
           \<in> set (fst (run_ensemble_single_state lib rng initial_partition num_steps use_contiguity))"
proof -
  obtain out chain where c: "single_state_chain lib initial_partition num_steps use_contiguity = (out, chain)"
    by (cases "single_state_chain lib initial_partition num_steps use_contiguity")
  then have ts: "total_steps chain = num_steps"
    using total_steps_single_state_chain [of lib initial_partition num_steps use_contiguity] by simp
  from assms have z: "num_steps div 10 = 0" by simp
  have "length (run_chain lib chain rng) = nat num_steps"
    by (simp add: length_run_chain ts)
  with assms have ne: "run_chain lib chain rng \<noteq> []" by auto
  have l: "single_state_loop num_steps 0 out [] (run_chain lib chain rng) = (out, Inl ZeroDivisionError)"
    by (rule single_state_loop_raises [OF z ne])
  show "snd (run_ensemble_single_state lib rng initial_partition num_steps use_contiguity) = None"
    using c l by (simp add: run_ensemble_single_state_def)
  show "ErrorRunningEnsemble ZeroDivisionError
           \<in> set (fst (run_ensemble_single_state lib rng initial_partition num_steps use_contiguity))"
    using c l by (simp add: run_ensemble_single_state_def)
qed

text \<open>
  C2 at \<^verbatim>\<open>num_steps = 5\<close>. In \<^verbatim>\<open>single_state_detection.py\<close> the progress line takes
  \<^verbatim>\<open>(i + 1) % (num_steps // 10)\<close>, and \<^verbatim>\<open>5 // 10\<close> is 0: the first chain step raises
  \<^verbatim>\<open>ZeroDivisionError\<close>, the \<^verbatim>\<open>except\<close> clause prints the error, and \<^verbatim>\<open>run_ensemble\<close>
  returns \<^verbatim>\<open>None\<close> instead of five values, whatever the library, the generator and the
  partition are. \<^verbatim>\<open>run_ensemble\<close> of \<^verbatim>\<open>multi_state_detection.py\<close>, which has no
  progress line, returns five values on the same input. (For every \<^verbatim>\<open>num_steps\<close> from 10
  on the single-state loop returns \<^verbatim>\<open>num_steps\<close> values, and the multi-state loop does
  for every \<^verbatim>\<open>num_steps\<close>: the lemmas \<open>run_ensemble_single_state_length\<close> and
  \<open>run_ensemble_multi_state_length\<close>.)
\<close>

theorem run_ensemble_five_steps_returns_none:
  "snd (run_ensemble_single_state lib rng initial_partition 5 use_contiguity) = None
   \<and> ErrorRunningEnsemble ZeroDivisionError
        \<in> set (fst (run_ensemble_single_state lib rng initial_partition 5 use_contiguity))
   \<and> map_option length (run_ensemble_multi_state lib rng initial_partition 5) = Some 5"
proof -
  obtain xs where "run_ensemble_multi_state lib rng initial_partition 5 = Some xs"
    and "length xs = nat 5"
    using run_ensemble_multi_state_length [of lib rng initial_partition 5] by blast
  then have "map_option length (run_ensemble_multi_state lib rng initial_partition 5) = Some 5"
    by simp
  then show ?thesis
    using run_ensemble_single_state_small [of 5 lib rng initial_partition use_contiguity]
    by simp
qed

section \<open>Analysis lemmas\<close>

lemma length_remdups_one: "length (remdups xs) = 1 \<longleftrightarrow> (\<exists>v. set xs = {v})"
  by (simp add: length_remdups_card_conv card_1_singleton_iff)

lemma v2_loop_output:
  "\<exists>more. fst (v2_loop num_steps i out acc smp ps) = out @ more
        \<and> IdenticalResultsWarning \<notin> set more"
proof (induction ps arbitrary: i out acc smp)
  case Nil
  then show ?case by simp
next
  case (Cons p ps)
  show ?case
  proof (cases "num_steps div 10 = 0")
    case True
    then show ?thesis by (simp add: py_mod_def)
  next
    case False
    let ?out = "if (i + 1) mod (num_steps div 10) = 0
                then out @ [Progress ((i + 1) * 100 div num_steps)] else out"
    let ?smp = "if i mod (max 1 (num_steps div 100)) = 0 then smp @ [p] else smp"
    from Cons.IH [of "i + 1" ?out "acc @ [dem_wins p]" ?smp]
    obtain more where "fst (v2_loop num_steps (i + 1) ?out (acc @ [dem_wins p]) ?smp ps)
        = ?out @ more" and "IdenticalResultsWarning \<notin> set more" by blast
    with False show ?thesis by (auto simp: py_mod_def)
  qed
qed

lemma v2_chain_no_identical_warning:
  "IdenticalResultsWarning \<notin> set (fst (v2_chain lib initial_partition pop_col_name num_steps epsilon))"
  by (simp add: v2_chain_def Let_def py_truediv_def)

lemma run_ensemble_v2_warning:
  assumes "run_ensemble_v2 lib rng part pop_col num_steps epsilon = (out, Some (xs, smp))"
  shows "IdenticalResultsWarning \<in> set out \<longleftrightarrow> (\<exists>v. set xs = {v})"
proof -
  obtain out0 c where c: "v2_chain lib part pop_col num_steps epsilon = (out0, c)"
    by (cases "v2_chain lib part pop_col num_steps epsilon")
  with assms obtain chain where ch: "c = Inr chain"
    by (cases c) (auto simp: run_ensemble_v2_def)
  obtain out1 r where l: "v2_loop num_steps 0 out0 [] [] (run_chain lib chain rng) = (out1, r)"
    by (cases "v2_loop num_steps 0 out0 [] [] (run_chain lib chain rng)")
  with assms c ch have r: "r = Inr (xs, smp)"
    by (cases r) (auto simp: run_ensemble_v2_def Let_def split: if_splits)
  from v2_loop_output [of num_steps 0 out0 "[]" "[]" "run_chain lib chain rng"] l
  obtain more where m: "out1 = out0 @ more" "IdenticalResultsWarning \<notin> set more" by auto
  from v2_chain_no_identical_warning [of lib part pop_col num_steps epsilon] c
  have n0: "IdenticalResultsWarning \<notin> set out0" by simp
  from assms c ch l r
  have "out = out1 @ [Done] @ (if length (remdups xs) = 1 then [IdenticalResultsWarning] else [])"
    by (auto simp: run_ensemble_v2_def Let_def)
  with m n0 show ?thesis
    by (auto simp: length_remdups_one simp del: One_nat_def)
qed

lemma analysis_record_keys:
  "map fst (analysis_record state_name precincts num_districts initial_dem_wins
       dem_vote_share rep_vote_share total_dem total_rep seat_vote_gap_dem seat_vote_gap_rep
       initial_district_stats num_steps first_wins more_wins pct)
   = [''state'', ''precincts'', ''num_districts'', ''initial_dem_wins'', ''dem_vote_share'',
      ''rep_vote_share'', ''total_dem_votes'', ''total_rep_votes'', ''ensemble_mean'',
      ''ensemble_std'', ''ensemble_min'', ''ensemble_max'', ''percentile'', ''z_score'',
      ''is_gerrymandered'', ''percentile_outlier'', ''large_seats_votes_gap'', ''has_packing'',
      ''large_seat_difference'', ''ensemble_steps'', ''histogram'', ''seat_vote_gap_dem'',
      ''seat_vote_gap_rep'']"
  by (simp add: analysis_record_def Let_def)

lemma analysis_record_flags:
  "bool_entries (analysis_record state_name precincts num_districts initial_dem_wins
       dem_vote_share rep_vote_share total_dem total_rep seat_vote_gap_dem seat_vote_gap_rep
       initial_district_stats num_steps first_wins more_wins pct)
   = [(''is_gerrymandered'',
        is_gerrymandered (percentile_outlier OUTLIER_THRESHOLD pct)
          (large_seats_votes_gap seat_vote_gap_dem seat_vote_gap_rep)
          (has_packing initial_district_stats)
          (large_seat_difference initial_dem_wins (np_mean (map of_int (first_wins # more_wins))))),
      (''percentile_outlier'', percentile_outlier OUTLIER_THRESHOLD pct),
      (''large_seats_votes_gap'', large_seats_votes_gap seat_vote_gap_dem seat_vote_gap_rep),
      (''has_packing'', has_packing initial_district_stats),
      (''large_seat_difference'',
        large_seat_difference initial_dem_wins (np_mean (map of_int (first_wins # more_wins))))]"
  by (simp add: analysis_record_def Let_def)

lemma calculate_ensemble_average_map_returns:
  "\<exists>r. calculate_ensemble_average_map samples = Inr r"
proof (cases samples)
  case Nil
  then show ?thesis by (simp add: calculate_ensemble_average_map_def)
next
  case (Cons first rest)
  have "\<exists>ys. py_for (average_statistics samples) (sort (remdups (parts_keys first))) = Inr ys
          \<and> list_all2 (\<lambda>d s. True) (sort (remdups (parts_keys first))) ys"
    by (rule py_for_total) (use average_statistics_value [of samples] in blast)
  then show ?thesis
    using Cons by (auto simp: calculate_ensemble_average_map_def py_bind_def)
qed

lemma analyze_ensemble_some:
  assumes "analyze_ensemble state_name precincts num_districts initial_dem_wins
       dem_vote_share rep_vote_share total_dem total_rep seat_vote_gap_dem seat_vote_gap_rep
       initial_district_stats num_steps ensemble = Inr (Some r)"
  shows "\<exists>first_wins more_wins smp pct.
      ensemble = Some (first_wins # more_wins, smp)
    \<and> percentile (first_wins # more_wins) initial_dem_wins = Inr pct
    \<and> r = analysis_record state_name precincts num_districts initial_dem_wins
       dem_vote_share rep_vote_share total_dem total_rep seat_vote_gap_dem seat_vote_gap_rep
       initial_district_stats num_steps first_wins more_wins pct"
  using assms
  by (auto simp: analyze_ensemble_def py_bind_def
      split: option.splits list.splits sum.splits prod.splits)

lemma analyze_state_v2_some:
  assumes "analyze_state_v2 lib rng state_name precincts num_districts part pop_col num_steps epsilon
             = (out, Inr (Some r))"
  shows "out = fst (run_ensemble_v2 lib rng part pop_col num_steps epsilon)"
    and "map fst r
   = [''state'', ''precincts'', ''num_districts'', ''initial_dem_wins'', ''dem_vote_share'',
      ''rep_vote_share'', ''total_dem_votes'', ''total_rep_votes'', ''ensemble_mean'',
      ''ensemble_std'', ''ensemble_min'', ''ensemble_max'', ''percentile'', ''z_score'',
      ''is_gerrymandered'', ''percentile_outlier'', ''large_seats_votes_gap'', ''has_packing'',
      ''large_seat_difference'', ''ensemble_steps'', ''histogram'', ''seat_vote_gap_dem'',
      ''seat_vote_gap_rep'']"
    and "map fst (bool_entries r)
   = [''is_gerrymandered'', ''percentile_outlier'', ''large_seats_votes_gap'', ''has_packing'',
      ''large_seat_difference'']"
  using assms
  by (auto simp: analyze_state_v2_def Let_def analysis_record_keys analysis_record_flags
      split: sum.splits prod.splits dest!: analyze_ensemble_some)

section \<open>Contiguity lemmas\<close>










section \<open>The stuck and the mixing chain\<close>

lemma dem_wins_one_seat: "dem_wins one_seat_partition = 1"
  by (simp add: dem_wins_def one_seat_partition_def)

lemma dem_wins_two_seat: "dem_wins two_seat_partition = 2"
  by (simp add: dem_wins_def two_seat_partition_def)

lemma parts_keys_one_seat: "parts_keys one_seat_partition = [1, 2]"
  by (simp add: one_seat_partition_def)

lemma votes_one_seat:
  "sum_list (map (tally_dem_votes one_seat_partition) (parts_keys one_seat_partition)) = 100"
  "sum_list (map (tally_rep_votes one_seat_partition) (parts_keys one_seat_partition)) = 100"
  by (simp_all add: one_seat_partition_def)

lemma run_stuck:
  "run_ensemble_v2 stuck_library True one_seat_partition ''TOTPOP'' 10 (1 / 20)
   = ([UsingReCom True, Progress 10, Progress 20, Progress 30, Progress 40, Progress 50,
       Progress 60, Progress 70, Progress 80, Progress 90, Progress 100, Done,
       IdenticalResultsWarning],
      Some ([1, 1, 1, 1, 1, 1, 1, 1, 1, 1], replicate 10 one_seat_partition))"
  by (simp add: run_ensemble_v2_def v2_chain_def stuck_library_def Let_def py_truediv_def
     run_chain_def chain_step_def eval_nat_numeral py_mod_def dem_wins_one_seat parts_keys_one_seat)

lemma run_mixing:
  "run_ensemble_v2 mixing_library True one_seat_partition ''TOTPOP'' 10 (1 / 20)
   = ([UsingReCom True, Progress 10, Progress 20, Progress 30, Progress 40, Progress 50,
       Progress 60, Progress 70, Progress 80, Progress 90, Progress 100, Done],
      Some ([2, 1, 2, 1, 2, 1, 2, 1, 2, 1],
        [two_seat_partition, one_seat_partition, two_seat_partition, one_seat_partition,
         two_seat_partition, one_seat_partition, two_seat_partition, one_seat_partition,
         two_seat_partition, one_seat_partition]))"
  by (simp add: run_ensemble_v2_def v2_chain_def mixing_library_def Let_def py_truediv_def
     run_chain_def chain_step_def eval_nat_numeral py_mod_def dem_wins_one_seat dem_wins_two_seat
     parts_keys_one_seat)

lemma no_packing_one_seat:
  "get_district_statistics one_seat_partition = Inr stats \<Longrightarrow> \<not> has_packing stats"
  unfolding get_district_statistics_value
  by (auto simp: has_packing_def dem_packing_def rep_packing_def district_statistics_value
      one_seat_partition_def)

lemma flags_stuck:
  "returned_flags (analyze_state_v2 stuck_library True ''wisconsin'' 4 2 one_seat_partition
       ''TOTPOP'' 10 (1 / 20))
   = Some [(''is_gerrymandered'', False), (''percentile_outlier'', False),
           (''large_seats_votes_gap'', False), (''has_packing'', False),
           (''large_seat_difference'', False)]"
proof -
  obtain stats where s: "get_district_statistics one_seat_partition = Inr stats"
    by (simp add: get_district_statistics_value)
  obtain avg where a: "calculate_ensemble_average_map (replicate 10 one_seat_partition) = Inr avg"
    using calculate_ensemble_average_map_returns by blast
  have p: "percentile [1, 1, 1, 1, 1, 1, 1, 1, 1, 1] 1 = Inr 50"
    by (simp add: percentile_def py_truediv_def below_initial_def equal_initial_def)
  show ?thesis
    using no_packing_one_seat [OF s]
    by (simp add: returned_flags_def analyze_state_v2_def s Let_def dem_wins_one_seat
        votes_one_seat py_bind_def py_truediv_def run_stuck analyze_ensemble_def a p
        analysis_record_flags is_gerrymandered_def percentile_outlier_def OUTLIER_THRESHOLD_def
        large_seats_votes_gap_def large_seat_difference_def np_mean_def)
qed


lemma flags_mixing:
  "returned_flags (analyze_state_v2 mixing_library True ''wisconsin'' 4 2 one_seat_partition
       ''TOTPOP'' 10 (1 / 20))
   = Some [(''is_gerrymandered'', False), (''percentile_outlier'', False),
           (''large_seats_votes_gap'', False), (''has_packing'', False),
           (''large_seat_difference'', False)]"
proof -
  obtain stats where s: "get_district_statistics one_seat_partition = Inr stats"
    by (simp add: get_district_statistics_value)
  obtain avg where a: "calculate_ensemble_average_map
        [two_seat_partition, one_seat_partition, two_seat_partition, one_seat_partition,
         two_seat_partition, one_seat_partition, two_seat_partition, one_seat_partition,
         two_seat_partition, one_seat_partition] = Inr avg"
    using calculate_ensemble_average_map_returns by blast
  have p: "percentile [2, 1, 2, 1, 2, 1, 2, 1, 2, 1] 1 = Inr 25"
    by (simp add: percentile_def py_truediv_def below_initial_def equal_initial_def)
  show ?thesis
    using no_packing_one_seat [OF s]
    by (simp add: returned_flags_def analyze_state_v2_def s Let_def dem_wins_one_seat
        votes_one_seat py_bind_def py_truediv_def run_mixing analyze_ensemble_def a p
        analysis_record_flags is_gerrymandered_def percentile_outlier_def OUTLIER_THRESHOLD_def
        large_seats_votes_gap_def large_seat_difference_def np_mean_def)
qed

lemma keys_stuck:
  "returned_keys (analyze_state_v2 stuck_library True ''wisconsin'' 4 2 one_seat_partition
       ''TOTPOP'' 10 (1 / 20))
   = Some [''state'', ''precincts'', ''num_districts'', ''initial_dem_wins'', ''dem_vote_share'',
      ''rep_vote_share'', ''total_dem_votes'', ''total_rep_votes'', ''ensemble_mean'',
      ''ensemble_std'', ''ensemble_min'', ''ensemble_max'', ''percentile'', ''z_score'',
      ''is_gerrymandered'', ''percentile_outlier'', ''large_seats_votes_gap'', ''has_packing'',
      ''large_seat_difference'', ''ensemble_steps'', ''histogram'', ''seat_vote_gap_dem'',
      ''seat_vote_gap_rep'']"
proof -
  obtain stats where s: "get_district_statistics one_seat_partition = Inr stats"
    by (simp add: get_district_statistics_value)
  obtain avg where a: "calculate_ensemble_average_map (replicate 10 one_seat_partition) = Inr avg"
    using calculate_ensemble_average_map_returns by blast
  have p: "percentile [1, 1, 1, 1, 1, 1, 1, 1, 1, 1] 1 = Inr 50"
    by (simp add: percentile_def py_truediv_def below_initial_def equal_initial_def)
  show ?thesis
    by (simp add: returned_keys_def analyze_state_v2_def s Let_def dem_wins_one_seat
        votes_one_seat py_bind_def py_truediv_def run_stuck analyze_ensemble_def a p
        analysis_record_keys)
qed

lemma output_analyze_v2:
  "num_districts \<noteq> 0 \<Longrightarrow>
   fst (analyze_state_v2 lib rng state_name precincts num_districts part pop_col num_steps epsilon)
     = fst (run_ensemble_v2 lib rng part pop_col num_steps epsilon)"
  by (simp add: analyze_state_v2_def get_district_statistics_value Let_def py_bind_def
      py_truediv_def split: prod.splits)

text \<open>
  C4, as stated, fails on the result record. A chain that never moves (ten times one
  seat) and a chain that mixes (two seats and one seat in turn) are analysed from the
  same enacted partition: the warning is printed for the first and not for the second,
  but the two returned dicts hold the same Boolean entries, all false, and none of the
  23 keys of the dict is a degenerate-ensemble flag.
\<close>

theorem degenerate_ensemble_not_in_record_counterexample:
  "returned_flags (analyze_state_v2 stuck_library True ''wisconsin'' 4 2 one_seat_partition
       ''TOTPOP'' 10 (1 / 20))
   = returned_flags (analyze_state_v2 mixing_library True ''wisconsin'' 4 2 one_seat_partition
       ''TOTPOP'' 10 (1 / 20))
   \<and> returned_flags (analyze_state_v2 stuck_library True ''wisconsin'' 4 2 one_seat_partition
       ''TOTPOP'' 10 (1 / 20))
     = Some [(''is_gerrymandered'', False), (''percentile_outlier'', False),
           (''large_seats_votes_gap'', False), (''has_packing'', False),
           (''large_seat_difference'', False)]
   \<and> returned_keys (analyze_state_v2 stuck_library True ''wisconsin'' 4 2 one_seat_partition
       ''TOTPOP'' 10 (1 / 20))
     = Some [''state'', ''precincts'', ''num_districts'', ''initial_dem_wins'', ''dem_vote_share'',
      ''rep_vote_share'', ''total_dem_votes'', ''total_rep_votes'', ''ensemble_mean'',
      ''ensemble_std'', ''ensemble_min'', ''ensemble_max'', ''percentile'', ''z_score'',
      ''is_gerrymandered'', ''percentile_outlier'', ''large_seats_votes_gap'', ''has_packing'',
      ''large_seat_difference'', ''ensemble_steps'', ''histogram'', ''seat_vote_gap_dem'',
      ''seat_vote_gap_rep'']
   \<and> IdenticalResultsWarning \<in> set (fst (analyze_state_v2 stuck_library True ''wisconsin'' 4 2
       one_seat_partition ''TOTPOP'' 10 (1 / 20)))
   \<and> IdenticalResultsWarning \<notin> set (fst (analyze_state_v2 mixing_library True ''wisconsin'' 4 2
       one_seat_partition ''TOTPOP'' 10 (1 / 20)))
   \<and> map_option fst (snd (run_ensemble_v2 stuck_library True one_seat_partition ''TOTPOP'' 10 (1 / 20)))
     = Some [1, 1, 1, 1, 1, 1, 1, 1, 1, 1]
   \<and> map_option fst (snd (run_ensemble_v2 mixing_library True one_seat_partition ''TOTPOP'' 10 (1 / 20)))
     = Some [2, 1, 2, 1, 2, 1, 2, 1, 2, 1]"
  by (simp add: flags_stuck flags_mixing keys_stuck run_stuck run_mixing output_analyze_v2)

text \<open>
  C4, amended. When \<^verbatim>\<open>run_ensemble\<close> of \<^verbatim>\<open>single_state_detection_v2.py\<close> returns a list,
  the identical-results warning is printed if and only if the list is not empty and all
  its values are one value. The dict \<^verbatim>\<open>analyze_state\<close> returns has the 23 keys below,
  of which five hold a Boolean, and carries the output of \<^verbatim>\<open>run_ensemble\<close> unchanged;
  the degenerate condition is not among its entries.
\<close>

theorem degenerate_ensemble_warned_not_recorded:
  "(run_ensemble_v2 lib rng part pop_col num_steps epsilon = (out, Some (dem_wins_list, samples)) \<longrightarrow>
      (IdenticalResultsWarning \<in> set out \<longleftrightarrow> (\<exists>v. set dem_wins_list = {v})))
   \<and> (analyze_state_v2 lib rng state_name precincts num_districts part pop_col num_steps epsilon
         = (out', Inr (Some r)) \<longrightarrow>
        out' = fst (run_ensemble_v2 lib rng part pop_col num_steps epsilon)
      \<and> map fst r
         = [''state'', ''precincts'', ''num_districts'', ''initial_dem_wins'', ''dem_vote_share'',
            ''rep_vote_share'', ''total_dem_votes'', ''total_rep_votes'', ''ensemble_mean'',
            ''ensemble_std'', ''ensemble_min'', ''ensemble_max'', ''percentile'', ''z_score'',
            ''is_gerrymandered'', ''percentile_outlier'', ''large_seats_votes_gap'', ''has_packing'',
            ''large_seat_difference'', ''ensemble_steps'', ''histogram'', ''seat_vote_gap_dem'',
            ''seat_vote_gap_rep'']
      \<and> map fst (bool_entries r)
         = [''is_gerrymandered'', ''percentile_outlier'', ''large_seats_votes_gap'', ''has_packing'',
            ''large_seat_difference''])"
  using run_ensemble_v2_warning [of lib rng part pop_col num_steps epsilon out dem_wins_list samples]
    analyze_state_v2_some [of lib rng state_name precincts num_districts part pop_col num_steps epsilon out' r]
  by blast


theorem degenerate_ensemble_warned_not_recorded_witness:
  "run_ensemble_v2 stuck_library True one_seat_partition ''TOTPOP'' 10 (1 / 20)
   = ([UsingReCom True, Progress 10, Progress 20, Progress 30, Progress 40, Progress 50,
       Progress 60, Progress 70, Progress 80, Progress 90, Progress 100, Done,
       IdenticalResultsWarning],
      Some ([1, 1, 1, 1, 1, 1, 1, 1, 1, 1], replicate 10 one_seat_partition))
   \<and> (\<exists>v. set [1, 1, 1, 1, 1, 1, 1, 1, 1, 1::int] = {v})
   \<and> (\<exists>r. snd (analyze_state_v2 stuck_library True ''wisconsin'' 4 2 one_seat_partition
                 ''TOTPOP'' 10 (1 / 20)) = Inr (Some r)
          \<and> map fst (bool_entries r)
             = [''is_gerrymandered'', ''percentile_outlier'', ''large_seats_votes_gap'',
                ''has_packing'', ''large_seat_difference''])"
proof -
  let ?run = "run_ensemble_v2 stuck_library True one_seat_partition ''TOTPOP'' 10 (1 / 20)"
  let ?res = "analyze_state_v2 stuck_library True ''wisconsin'' 4 2 one_seat_partition
                 ''TOTPOP'' 10 (1 / 20)"
  let ?out = "[UsingReCom True, Progress 10, Progress 20, Progress 30, Progress 40, Progress 50,
       Progress 60, Progress 70, Progress 80, Progress 90, Progress 100, Done,
       IdenticalResultsWarning]"
  from keys_stuck obtain r where r: "snd ?res = Inr (Some r)"
    by (auto simp: returned_keys_def split: sum.splits option.splits)
  then have res: "?res = (fst ?res, Inr (Some r))"
    by (cases ?res) simp
  note t = degenerate_ensemble_warned_not_recorded
    [of stuck_library True one_seat_partition "''TOTPOP''" 10 "1 / 20" ?out
      "[1, 1, 1, 1, 1, 1, 1, 1, 1, 1]" "replicate 10 one_seat_partition"
      "''wisconsin''" 4 2 "fst ?res" r]
  from t run_stuck have "(IdenticalResultsWarning \<in> set ?out)
      \<longleftrightarrow> (\<exists>v. set [1, 1, 1, 1, 1, 1, 1, 1, 1, 1::int] = {v})"
    by blast
  then have a: "\<exists>v. set [1, 1, 1, 1, 1, 1, 1, 1, 1, 1::int] = {v}" by simp
  from t res have b: "map fst (bool_entries r)
             = [''is_gerrymandered'', ''percentile_outlier'', ''large_seats_votes_gap'',
                ''has_packing'', ''large_seat_difference'']"
    by blast
  from r b have c: "\<exists>r. snd ?res = Inr (Some r)
          \<and> map fst (bool_entries r)
             = [''is_gerrymandered'', ''percentile_outlier'', ''large_seats_votes_gap'',
                ''has_packing'', ''large_seat_difference'']"
    by (intro exI [of _ r] conjI)
  show ?thesis
    by (intro conjI) (rule run_stuck, rule a, rule c)
qed


end
